theory Spec2Isabelle
  imports Complex_Main
begin

section \<open>The blueprint view: data\<close>

text \<open>
  A shallow embedding of \<^verbatim>\<open>src/views/HomeView.vue\<close>. The component keeps its state in
  module-level variables; here they are the fields of one record that every handler
  takes and returns. JavaScript numbers are modelled as reals: rounding, NaN and the
  infinities are left out, so the model is read only where no division by zero occurs.

  Field names of the library's objects carry a prefix (\<open>v2_x\<close> for \<open>Vector2.x\<close>,
  \<open>cam_left\<close> for \<open>camera.left\<close>, \<open>rect_left\<close> for \<open>DOMRect.left\<close>) because a
  record field is a global constant.
\<close>

datatype Vector2 = Vector2 (v2_x: real) (v2_y: real)

datatype Vector3 = Vector3 (v3_x: real) (v3_y: real) (v3_z: real)

text \<open>\<^verbatim>\<open>type Pt = { dx:number; dy:number; wx:number; wy:number; }\<close>\<close>

record Pt =
  dx :: real
  dy :: real
  wx :: real
  wy :: real

text \<open>The constant \<^verbatim>\<open>SNAP_DIST = 20\<close> (world units).\<close>

definition SNAP_DIST :: real where
  "SNAP_DIST = 20"

text \<open>What the component reads of a loaded texture: the size of its image.\<close>

datatype Texture = Texture (image_width: nat) (image_height: nat)

datatype Shape = Shape (shape_points: "Vector2 list")

datatype Geometry = PlaneGeometry real real | ShapeGeometry Shape

datatype Side = FrontSide | BackSide | DoubleSide

text \<open>
  \<open>MeshBasicMaterial\<close>: either \<^verbatim>\<open>{ map: tex }\<close> or
  \<^verbatim>\<open>{ color, side, opacity, transparent }\<close>.
\<close>

datatype MeshBasicMaterial = MapMaterial Texture | ColorMaterial nat Side real bool

text \<open>A mesh; a new \<open>Object3D\<close> sits at the origin.\<close>

record Mesh =
  geometry :: Geometry
  material :: MeshBasicMaterial
  mesh_position :: Vector3

definition new_Mesh :: "Geometry \<Rightarrow> MeshBasicMaterial \<Rightarrow> Mesh" where
  "new_Mesh g m = \<lparr>geometry = g, material = m, mesh_position = Vector3 0 0 0\<rparr>"

record OrthographicCamera =
  cam_left :: real
  cam_right :: real
  cam_top :: real
  cam_bottom :: real
  cam_near :: real
  cam_far :: real
  cam_position :: Vector3

text \<open>The renderer: the size given to \<open>setSize\<close> and the pixel ratio.\<close>

record WebGLRenderer =
  rd_width :: nat
  rd_height :: nat
  rd_pixelRatio :: real

record DOMRect =
  rect_left :: real
  rect_top :: real
  rect_width :: real
  rect_height :: real

text \<open>
  The container element: its bounding rectangle and its integer client size, both
  decided by the page layout.
\<close>

record Container =
  boundingClientRect :: DOMRect
  clientWidth :: nat
  clientHeight :: nat

datatype css_length = Unset | Px real

text \<open>The coordinate label: \<open>style.left\<close>, \<open>style.top\<close> and \<open>textContent\<close>.\<close>

record Label =
  style_left :: css_length
  style_top :: css_length
  textContent :: string

record Canvas =
  cv_width :: nat
  cv_height :: nat

text \<open>
  The overlay's 2D context is the list of the calls made on it, oldest first.
\<close>

datatype canvas_op =
    ClearRect real real real real
  | StrokeStyle string
  | LineWidth real
  | FillStyle string
  | BeginPath
  | MoveTo real real
  | LineTo real real
  | Arc real real real real real
  | Stroke
  | Fill

text \<open>What the component reads of a ray intersection: \<open>point\<close> and \<open>uv\<close>.\<close>

record Intersection =
  hit_point :: Vector3
  hit_uv :: "Vector2 option"

text \<open>\<^verbatim>\<open>clientX\<close> and \<^verbatim>\<open>clientY\<close> of a pointer event.\<close>

record PointerEvent =
  clientX :: real
  clientY :: real

text \<open>
  What the component uses of three.js and of the browser without defining it:
  \<^item> \<open>raycast p cam m\<close> stands for \<^verbatim>\<open>raycaster.setFromCamera(p, cam)\<close> followed by
    \<^verbatim>\<open>raycaster.intersectObject(m)\<close>, the list of intersections nearest first;
  \<^item> \<open>distanceTo a b\<close> is \<^verbatim>\<open>a.distanceTo(b)\<close> of \<open>Vector2\<close>, the number it returns;
  \<^item> \<open>toFixed v d\<close> is \<^verbatim>\<open>v.toFixed(d)\<close>;
  \<^item> \<open>devicePixelRatio\<close> is \<^verbatim>\<open>window.devicePixelRatio\<close>.
\<close>

record lib =
  raycast :: "Vector2 \<Rightarrow> OrthographicCamera \<Rightarrow> Mesh \<Rightarrow> Intersection list"
  distanceTo :: "Vector2 \<Rightarrow> Vector2 \<Rightarrow> real"
  toFixed :: "real \<Rightarrow> nat \<Rightarrow> string"
  devicePixelRatio :: real

text \<open>
  The calls the component makes on the scene and on the browser's resources (its
  effects), to be kept in the order they are made.
\<close>

datatype effect =
    SceneAdd Mesh
  | CreateObjectURL nat
  | RevokeObjectURL nat
  | RequestAnimationFrame nat
  | CancelAnimationFrame "nat option"
  | AddResizeListener
  | RemoveResizeListener

text \<open>
  The module-level variables, then the part of the browser the component talks to:
  the animation frame requests (the last identifier handed out and the requests not
  yet run or cancelled), the blob URLs (likewise), the texture loads in flight,
  whether \<open>resizeAll\<close> is registered for the window's resize event, and the effects
  so far, oldest first. A variable declared without a value
  (\<^verbatim>\<open>let camera!: ...\<close>) and a template reference are options.
\<close>

record state =
  scene :: "Mesh list"
  containerRef :: "Container option"
  coordLabel :: "Label option"
  overlay :: "Canvas option"
  overlayCtx :: "canvas_op list option"
  camera :: "OrthographicCamera option"
  renderer :: "WebGLRenderer option"
  animationId :: "nat option"
  pointer :: Vector2
  planeMesh :: "Mesh option"
  imgW :: real
  imgH :: real
  points :: "Pt list"
  raf_last :: nat
  raf_pending :: "nat set"
  blob_last :: nat
  blob_live :: "nat set"
  loads :: "nat list"
  resize_listening :: bool
  effects :: "effect list"

text \<open>
  A handler either returns or throws; the state it leaves behind is kept in both
  cases, since what it assigned before throwing stays assigned.
\<close>

datatype error = TypeError

type_synonym outcome = "(error \<times> state) + state"

definition state_of :: "outcome \<Rightarrow> state" where
  "state_of r = (case r of Inl (e, s) \<Rightarrow> s | Inr s \<Rightarrow> s)"

section \<open>Library calls\<close>

text \<open>\<open>scene.add\<close> appends to the scene's children.\<close>

definition scene_add :: "Mesh \<Rightarrow> state \<Rightarrow> state" where
  "scene_add m s = s\<lparr>scene := scene s @ [m], effects := effects s @ [SceneAdd m]\<rparr>"

text \<open>\<open>URL.createObjectURL\<close> hands out a fresh blob URL, \<open>URL.revokeObjectURL\<close> releases one.\<close>

definition createObjectURL :: "state \<Rightarrow> nat \<times> state" where
  "createObjectURL s =
     (let url = blob_last s + 1
      in (url, s\<lparr>blob_last := url, blob_live := insert url (blob_live s),
                 effects := effects s @ [CreateObjectURL url]\<rparr>))"

definition revokeObjectURL :: "nat \<Rightarrow> state \<Rightarrow> state" where
  "revokeObjectURL url s =
     s\<lparr>blob_live := blob_live s - {url}, effects := effects s @ [RevokeObjectURL url]\<rparr>"

text \<open>
  \<open>requestAnimationFrame\<close> hands out the next identifier and queues the request;
  \<open>cancelAnimationFrame\<close> drops the request of that identifier (an undefined
  identifier matches none).
\<close>

definition requestAnimationFrame :: "state \<Rightarrow> nat \<times> state" where
  "requestAnimationFrame s =
     (let h = raf_last s + 1
      in (h, s\<lparr>raf_last := h, raf_pending := insert h (raf_pending s),
               effects := effects s @ [RequestAnimationFrame h]\<rparr>))"

definition cancelAnimationFrame :: "nat option \<Rightarrow> state \<Rightarrow> state" where
  "cancelAnimationFrame h s =
     (let s1 = s\<lparr>effects := effects s @ [CancelAnimationFrame h]\<rparr>
      in (case h of None \<Rightarrow> s1 | Some i \<Rightarrow> s1\<lparr>raf_pending := raf_pending s1 - {i}\<rparr>))"

text \<open>
  \<^verbatim>\<open>window.addEventListener("resize", resizeAll)\<close> and its removal.
\<close>

definition addResizeListener :: "state \<Rightarrow> state" where
  "addResizeListener s = s\<lparr>resize_listening := True, effects := effects s @ [AddResizeListener]\<rparr>"

definition removeResizeListener :: "state \<Rightarrow> state" where
  "removeResizeListener s =
     s\<lparr>resize_listening := False, effects := effects s @ [RemoveResizeListener]\<rparr>"

text \<open>The em dash shown when the pointer is off the plane (U+2014, three bytes in UTF-8).\<close>

definition em_dash :: string where
  "em_dash = [CHR 0xE2, CHR 0x80, CHR 0x94]"

section \<open>The handlers\<close>

text \<open>
  \<open>onPointerMove\<close>. The guard returns when a template reference is missing. The
  pointer is set in normalised device coordinates, the ray is cast, and the label
  shows a dash (no hit) or the texture coordinate of the hit. \<open>setFromCamera\<close> reads
  fields of the camera and \<open>intersectObject\<close> reads \<open>layers\<close> of the object it is
  given, so an undefined camera or plane throws a \<open>TypeError\<close>; so does reading
  \<open>uv.x\<close> of an intersection that has no \<open>uv\<close>.
\<close>

definition onPointerMove :: "lib \<Rightarrow> PointerEvent \<Rightarrow> state \<Rightarrow> outcome" where
  "onPointerMove L ev s =
     (case containerRef s of None \<Rightarrow> Inr s | Some c \<Rightarrow>
     (case coordLabel s of None \<Rightarrow> Inr s | Some lbl \<Rightarrow>
        (let r = boundingClientRect c;
             px = clientX ev - rect_left r;
             py = clientY ev - rect_top r;
             s1 = s\<lparr>pointer := Vector2 ((px / rect_width r) * 2 - 1) (- (py / rect_height r) * 2 + 1)\<rparr>
         in (case camera s1 of None \<Rightarrow> Inl (TypeError, s1) | Some cam \<Rightarrow>
            (case planeMesh s1 of None \<Rightarrow> Inl (TypeError, s1) | Some m \<Rightarrow>
            (case raycast L (pointer s1) cam m of
               [] \<Rightarrow> Inr (s1\<lparr>coordLabel := Some (lbl\<lparr>textContent := em_dash\<rparr>)\<rparr>)
             | hit # rest \<Rightarrow>
                 (case hit_uv hit of None \<Rightarrow> Inl (TypeError, s1) | Some uv \<Rightarrow>
                    (let ix = v2_x uv * imgW s1;
                         iy = (1 - v2_y uv) * imgH s1
                     in Inr (s1\<lparr>coordLabel := Some (lbl\<lparr>
                          style_left := Px px,
                          style_top := Px (py - 20),
                          textContent :=
                            ''('' @ toFixed L ix 0 @ '', '' @ toFixed L iy 0 @ '')''\<rparr>)\<rparr>)))))))))"

text \<open>
  \<open>drawOverlay\<close>: clear, stroke the line through the points, fill a disc at each
  point. The two \<^verbatim>\<open>for\<close> loops are folds over the points, each appending its calls.
\<close>

definition drawOverlay :: "state \<Rightarrow> state" where
  "drawOverlay s =
     (case overlayCtx s of None \<Rightarrow> s | Some ctx \<Rightarrow>
     (case overlay s of None \<Rightarrow> s | Some cv \<Rightarrow>
        (let W = real (cv_width cv);
             H = real (cv_height cv);
             c1 = ctx @ [ClearRect 0 0 W H];
             c2 = c1 @ [StrokeStyle ''lime''];
             c3 = c2 @ [LineWidth 2];
             c4 = (if length (points s) > 1
                   then (fold (\<lambda>p c. c @ [LineTo (dx p) (dy p)]) (drop 1 (points s))
                          (c3 @ [BeginPath] @ [MoveTo (dx (points s ! 0)) (dy (points s ! 0))]))
                        @ [Stroke]
                   else c3);
             c5 = c4 @ [FillStyle ''cyan''];
             c6 = fold (\<lambda>p c. c @ [BeginPath] @ [Arc (dx p) (dy p) 5 0 (pi * 2)] @ [Fill])
                    (points s) c5
         in s\<lparr>overlayCtx := Some c6\<rparr>)))"

text \<open>
  \<open>createShape\<close>: a mesh over the shape of the stored world coordinates is added to
  the scene, then the overlay is cleared and the points are dropped. The constructor
  of \<open>THREE.Shape\<close>, given a list, moves to its first point: it reads
  \<^verbatim>\<open>points[0].x\<close>, so on an empty list it throws a \<open>TypeError\<close>, before anything is
  added. \<open>overlayCtx\<close> and \<open>overlay.value\<close> are dereferenced unguarded, after the mesh
  was added.
\<close>

definition new_Shape :: "Vector2 list \<Rightarrow> error + Shape" where
  "new_Shape vs = (case vs of [] \<Rightarrow> Inl TypeError | v # rest \<Rightarrow> Inr (Shape vs))"

definition createShape :: "state \<Rightarrow> outcome" where
  "createShape s =
     (case new_Shape (map (\<lambda>p. Vector2 (wx p) (wy p)) (points s)) of
        Inl e \<Rightarrow> Inl (e, s)
      | Inr shape \<Rightarrow>
          (let geom = ShapeGeometry shape;
               mat = ColorMaterial 0xff0000 DoubleSide 0.5 True;
               s1 = scene_add (new_Mesh geom mat) s
           in (case overlayCtx s1 of None \<Rightarrow> Inl (TypeError, s1) | Some ctx \<Rightarrow>
              (case overlay s1 of None \<Rightarrow> Inl (TypeError, s1) | Some cv \<Rightarrow>
                 Inr (s1\<lparr>overlayCtx :=
                           Some (ctx @ [ClearRect 0 0 (real (cv_width cv)) (real (cv_height cv))]),
                         points := []\<rparr>)))))"

text \<open>
  \<open>onPointerDown\<close>: cast the ray as above; without a hit return. With at least three
  points stored and the hit closer than \<open>SNAP_DIST\<close> to the first one, close the shape;
  otherwise store the point and redraw. (The source names the display coordinates
  \<open>dx\<close> and \<open>dy\<close>; here they are \<open>x\<close> and \<open>y\<close>, the fields of \<open>Pt\<close> having those names.)
\<close>

definition onPointerDown :: "lib \<Rightarrow> PointerEvent \<Rightarrow> state \<Rightarrow> outcome" where
  "onPointerDown L ev s =
     (case containerRef s of None \<Rightarrow> Inr s | Some c \<Rightarrow>
        (let r = boundingClientRect c;
             x = clientX ev - rect_left r;
             y = clientY ev - rect_top r;
             s1 = s\<lparr>pointer := Vector2 ((x / rect_width r) * 2 - 1) (- (y / rect_height r) * 2 + 1)\<rparr>
         in (case camera s1 of None \<Rightarrow> Inl (TypeError, s1) | Some cam \<Rightarrow>
            (case planeMesh s1 of None \<Rightarrow> Inl (TypeError, s1) | Some m \<Rightarrow>
            (case raycast L (pointer s1) cam m of
               [] \<Rightarrow> Inr s1
             | h # rest \<Rightarrow>
                 (let wp = hit_point h
                  in (if length (points s1) \<ge> 3 \<and>
                         distanceTo L (Vector2 (wx (points s1 ! 0)) (wy (points s1 ! 0)))
                                    (Vector2 (v3_x wp) (v3_y wp)) < SNAP_DIST
                      then createShape s1
                      else Inr (drawOverlay
                             (s1\<lparr>points := points s1 @
                                   [\<lparr>dx = x, dy = y, wx = v3_x wp, wy = v3_y wp\<rparr>]\<rparr>)))))))))"

text \<open>
  \<open>onFileChange\<close>: without a file return; otherwise create a blob URL for the file
  and start loading it as a texture. The load completes later, see \<open>onLoad\<close>.
\<close>

datatype File = File string

definition onFileChange :: "File option \<Rightarrow> state \<Rightarrow> state" where
  "onFileChange file s =
     (case file of None \<Rightarrow> s | Some f \<Rightarrow>
        (let (url, s1) = createObjectURL s
         in s1\<lparr>loads := loads s1 @ [url]\<rparr>))"

text \<open>
  The callback given to \<open>TextureLoader.load\<close>, closed over \<open>url\<close>: it runs when the
  texture has loaded.
\<close>

definition onLoad :: "nat \<Rightarrow> Texture \<Rightarrow> state \<Rightarrow> state" where
  "onLoad url tex s =
     (let s1 = s\<lparr>imgW := real (image_width tex)\<rparr>;
          s2 = s1\<lparr>imgH := real (image_height tex)\<rparr>;
          m = new_Mesh (PlaneGeometry (imgW s2) (imgH s2)) (MapMaterial tex);
          s3 = s2\<lparr>planeMesh := Some m\<rparr>;
          s4 = scene_add m s3
      in revokeObjectURL url s4)"

text \<open>
  \<open>resizeAll\<close>: the renderer, the camera's frustum and the overlay canvas take the
  container's client size. Only the container is guarded.
\<close>

definition resizeAll :: "state \<Rightarrow> outcome" where
  "resizeAll s =
     (case containerRef s of None \<Rightarrow> Inr s | Some c \<Rightarrow>
        (let w = clientWidth c;
             h = clientHeight c
         in (case renderer s of None \<Rightarrow> Inl (TypeError, s) | Some rd \<Rightarrow>
            (let s1 = s\<lparr>renderer := Some (rd\<lparr>rd_width := w, rd_height := h\<rparr>)\<rparr>
             in (case camera s1 of None \<Rightarrow> Inl (TypeError, s1) | Some cam \<Rightarrow>
                (let s2 = s1\<lparr>camera := Some (cam\<lparr>
                            cam_left := - real w / 2, cam_right := real w / 2,
                            cam_top := real h / 2, cam_bottom := - real h / 2\<rparr>)\<rparr>
                 in (case overlay s2 of None \<Rightarrow> Inl (TypeError, s2) | Some cv \<Rightarrow>
                    Inr (s2\<lparr>overlay := Some (cv\<lparr>cv_width := w, cv_height := h\<rparr>)\<rparr>))))))))"

text \<open>
  The render loop: request the next frame, remember its handle, render. Rendering
  changes none of the fields modelled; it dereferences the renderer.
\<close>

definition loop :: "state \<Rightarrow> outcome" where
  "loop s =
     (let (h, s1) = requestAnimationFrame s;
          s2 = s1\<lparr>animationId := Some h\<rparr>
      in (case renderer s2 of None \<Rightarrow> Inl (TypeError, s2) | Some rd \<Rightarrow> Inr s2))"

text \<open>
  \<open>onMounted\<close>: camera and renderer (a new renderer has the size of its new canvas,
  300 by 150), the overlay's context, a first \<open>resizeAll\<close>, the resize listener, and
  the first turn of the loop. The camera's orientation (\<open>lookAt\<close>) and the renderer's
  canvas being appended to the container are not part of the state.
\<close>

definition onMounted :: "lib \<Rightarrow> state \<Rightarrow> outcome" where
  "onMounted L s =
     (case containerRef s of None \<Rightarrow> Inl (TypeError, s) | Some c \<Rightarrow>
        (let w = clientWidth c;
             h = clientHeight c;
             s1 = s\<lparr>camera := Some \<lparr>cam_left = - real w / 2, cam_right = real w / 2,
                                    cam_top = real h / 2, cam_bottom = - real h / 2,
                                    cam_near = 0.1, cam_far = 1000,
                                    cam_position = Vector3 0 0 10\<rparr>\<rparr>;
             s2 = s1\<lparr>renderer := Some \<lparr>rd_width = 300, rd_height = 150,
                                      rd_pixelRatio = devicePixelRatio L\<rparr>\<rparr>
         in (case overlay s2 of None \<Rightarrow> Inl (TypeError, s2) | Some cv \<Rightarrow>
            (let s3 = s2\<lparr>overlayCtx := Some []\<rparr>
             in (case resizeAll s3 of Inl e \<Rightarrow> Inl e | Inr s4 \<Rightarrow>
                loop (addResizeListener s4))))))"

definition onUnmounted :: "state \<Rightarrow> state" where
  "onUnmounted s =
     (let s1 = removeResizeListener s
      in cancelAnimationFrame (animationId s1) s1)"

section \<open>The component's life\<close>

text \<open>
  Before \<open>onMounted\<close> runs the template references are set (the container with the
  layout the page gave it, an empty label, an overlay canvas of the default size 300
  by 150) and nothing else is.
\<close>

definition initial :: "Container \<Rightarrow> state" where
  "initial c =
     \<lparr>scene = [],
      containerRef = Some c,
      coordLabel = Some \<lparr>style_left = Unset, style_top = Unset, textContent = []\<rparr>,
      overlay = Some \<lparr>cv_width = 300, cv_height = 150\<rparr>,
      overlayCtx = None,
      camera = None,
      renderer = None,
      animationId = None,
      pointer = Vector2 0 0,
      planeMesh = None,
      imgW = 0,
      imgH = 0,
      points = [],
      raf_last = 0,
      raf_pending = {},
      blob_last = 0,
      blob_live = {},
      loads = [],
      resize_listening = False,
      effects = []\<rparr>"

text \<open>
  What can happen to a mounted component: the two pointer events the template binds,
  a change of the file input, the end of a texture load (the texture, or a failure,
  for which the source gives no callback), a resize of the window (the container gets
  a new layout, then the listeners run), and a turn of the render loop.
\<close>

datatype event =
    EvPointerMove PointerEvent
  | EvPointerDown PointerEvent
  | EvFileChange "File option"
  | EvLoad nat Texture
  | EvLoadError nat
  | EvResize Container
  | EvFrame nat

definition relayout :: "Container \<Rightarrow> state \<Rightarrow> state" where
  "relayout c s = (case containerRef s of None \<Rightarrow> s | Some old \<Rightarrow> s\<lparr>containerRef := Some c\<rparr>)"

fun fire :: "lib \<Rightarrow> event \<Rightarrow> state \<Rightarrow> state" where
  "fire L (EvPointerMove ev) s = state_of (onPointerMove L ev s)"
| "fire L (EvPointerDown ev) s = state_of (onPointerDown L ev s)"
| "fire L (EvFileChange file) s = onFileChange file s"
| "fire L (EvLoad url tex) s =
     (if url \<in> set (loads s) then onLoad url tex (s\<lparr>loads := removeAll url (loads s)\<rparr>) else s)"
| "fire L (EvLoadError url) s = s\<lparr>loads := removeAll url (loads s)\<rparr>"
| "fire L (EvResize c) s =
     (let s1 = relayout c s
      in (if resize_listening s1 then state_of (resizeAll s1) else s1))"
| "fire L (EvFrame h) s =
     (if h \<in> raf_pending s then state_of (loop (s\<lparr>raf_pending := raf_pending s - {h}\<rparr>)) else s)"

definition mounted :: "lib \<Rightarrow> Container \<Rightarrow> state" where
  "mounted L c = state_of (onMounted L (initial c))"

definition session :: "lib \<Rightarrow> Container \<Rightarrow> event list \<Rightarrow> state" where
  "session L c evs = fold (fire L) evs (mounted L c)"

section \<open>Reading the overlay's calls\<close>

text \<open>
  The calls on the 2D context are read as the canvas does: the styles and the current
  path are state, and \<open>clearRect\<close>, \<open>stroke\<close> and \<open>fill\<close> leave a mark each.
\<close>

datatype seg = SegMove real real | SegLine real real | SegArc real real real real real

datatype mark =
    Cleared real real real real
  | Stroked string real "seg list"
  | Filled string "seg list"

record painter =
  strokeStyle :: string
  lineWidth :: real
  fillStyle :: string
  path :: "seg list"
  marks :: "mark list"

fun paint_op :: "canvas_op \<Rightarrow> painter \<Rightarrow> painter" where
  "paint_op (ClearRect x y w h) p = p\<lparr>marks := marks p @ [Cleared x y w h]\<rparr>"
| "paint_op (StrokeStyle c) p = p\<lparr>strokeStyle := c\<rparr>"
| "paint_op (LineWidth w) p = p\<lparr>lineWidth := w\<rparr>"
| "paint_op (FillStyle c) p = p\<lparr>fillStyle := c\<rparr>"
| "paint_op BeginPath p = p\<lparr>path := []\<rparr>"
| "paint_op (MoveTo x y) p = p\<lparr>path := path p @ [SegMove x y]\<rparr>"
| "paint_op (LineTo x y) p = p\<lparr>path := path p @ [SegLine x y]\<rparr>"
| "paint_op (Arc x y r a b) p = p\<lparr>path := path p @ [SegArc x y r a b]\<rparr>"
| "paint_op Stroke p = p\<lparr>marks := marks p @ [Stroked (strokeStyle p) (lineWidth p) (path p)]\<rparr>"
| "paint_op Fill p = p\<lparr>marks := marks p @ [Filled (fillStyle p) (path p)]\<rparr>"

definition paint :: "canvas_op list \<Rightarrow> painter \<Rightarrow> painter" where
  "paint ops p = fold paint_op ops p"

text \<open>A context as \<open>getContext\<close> returns it: black styles, no path, nothing drawn.\<close>

definition blank_painter :: painter where
  "blank_painter =
     \<lparr>strokeStyle = ''#000000'', lineWidth = 1, fillStyle = ''#000000'', path = [], marks = []\<rparr>"

text \<open>The line through a list of points: a move to the first, a line to each other.\<close>

fun polyline :: "(real \<times> real) list \<Rightarrow> seg list" where
  "polyline [] = []"
| "polyline ((x, y) # vs) = SegMove x y # map (\<lambda>(a, b). SegLine a b) vs"

section \<open>An instance of the library, for examples\<close>

text \<open>
  A camera looking down the z axis at meshes in the plane \<open>z = 0\<close>: the ray through
  the pointer meets a plane of size \<open>W\<close> by \<open>H\<close> centred at the mesh's position when it
  falls inside it. Distances are Euclidean. Numbers are printed without decimals,
  rounded half up in magnitude (the component asks for no decimals at each of its
  calls).
\<close>

definition euclidean :: "Vector2 \<Rightarrow> Vector2 \<Rightarrow> real" where
  "euclidean a b =
     sqrt ((v2_x a - v2_x b) * (v2_x a - v2_x b) + (v2_y a - v2_y b) * (v2_y a - v2_y b))"

definition flat_raycast :: "Vector2 \<Rightarrow> OrthographicCamera \<Rightarrow> Mesh \<Rightarrow> Intersection list" where
  "flat_raycast p cam m =
     (case geometry m of
        ShapeGeometry sh \<Rightarrow> []
      | PlaneGeometry W H \<Rightarrow>
          (let X = (v2_x p * (cam_right cam - cam_left cam) + (cam_right cam + cam_left cam)) / 2
                     + v3_x (cam_position cam);
               Y = (v2_y p * (cam_top cam - cam_bottom cam) + (cam_top cam + cam_bottom cam)) / 2
                     + v3_y (cam_position cam);
               u = (X - v3_x (mesh_position m)) / W + 1 / 2;
               v = (Y - v3_y (mesh_position m)) / H + 1 / 2
           in (if 0 < W \<and> 0 < H \<and> 0 \<le> u \<and> u \<le> 1 \<and> 0 \<le> v \<and> v \<le> 1
               then [\<lparr>hit_point = Vector3 X Y 0, hit_uv = Some (Vector2 u v)\<rparr>]
               else [])))"

function show_nat :: "nat \<Rightarrow> string" where
  "show_nat n =
     (if n < 10 then [''0123456789'' ! n]
      else show_nat (n div 10) @ [''0123456789'' ! (n mod 10)])"
  by pat_completeness auto
termination
  by (relation "measure (\<lambda>n. n)") auto

declare show_nat.simps [simp del]

definition fixed0 :: "real \<Rightarrow> nat \<Rightarrow> string" where
  "fixed0 v d = (if v < 0 then ''-'' else []) @ show_nat (nat \<lfloor>\<bar>v\<bar> + 1 / 2\<rfloor>)"

definition flat_lib :: lib where
  "flat_lib =
     \<lparr>raycast = flat_raycast, distanceTo = euclidean, toFixed = fixed0, devicePixelRatio = 1\<rparr>"

text \<open>
  The example: a container of 800 by 600 below a bar of 64 pixels, an image of 400 by
  300, and three clicks on the image, at the world points \<open>(-100, 100)\<close>,
  \<open>(100, 100)\<close> and \<open>(100, -100)\<close>.
\<close>

definition demo_container :: Container where
  "demo_container =
     \<lparr>boundingClientRect = \<lparr>rect_left = 0, rect_top = 64, rect_width = 800, rect_height = 600\<rparr>,
      clientWidth = 800, clientHeight = 600\<rparr>"

definition demo_loaded :: state where
  "demo_loaded =
     session flat_lib demo_container
       [EvFileChange (Some (File ''plan.png'')), EvLoad 1 (Texture 400 300)]"

definition demo_three :: state where
  "demo_three =
     fold (fire flat_lib)
       [EvPointerDown \<lparr>clientX = 300, clientY = 264\<rparr>,
        EvPointerDown \<lparr>clientX = 500, clientY = 264\<rparr>,
        EvPointerDown \<lparr>clientX = 500, clientY = 464\<rparr>] demo_loaded"

section \<open>What holds while the component is mounted\<close>

text \<open>
  \<open>alive\<close>: the references and the objects made by \<open>onMounted\<close> are there, the resize
  listener is registered, and the one pending frame request is the one whose handle
  \<open>animationId\<close> holds.
\<close>

definition alive :: "state \<Rightarrow> bool" where
  "alive s \<longleftrightarrow>
     containerRef s \<noteq> None \<and> coordLabel s \<noteq> None \<and> overlay s \<noteq> None \<and>
     overlayCtx s \<noteq> None \<and> camera s \<noteq> None \<and> renderer s \<noteq> None \<and>
     resize_listening s \<and> animationId s = Some (raf_last s) \<and> raf_pending s = {raf_last s}"

text \<open>The positions of the camera, of the plane and of the meshes of the scene.\<close>

definition camera_position :: "state \<Rightarrow> Vector3 option" where
  "camera_position s = map_option cam_position (camera s)"

definition plane_position :: "state \<Rightarrow> Vector3 option" where
  "plane_position s = map_option mesh_position (planeMesh s)"

definition scene_positions :: "state \<Rightarrow> Vector3 list" where
  "scene_positions s = map mesh_position (scene s)"

definition still :: "state \<Rightarrow> bool" where
  "still s \<longleftrightarrow>
     camera_position s = Some (Vector3 0 0 10) \<and>
     set (scene_positions s) \<subseteq> {Vector3 0 0 0} \<and>
     set_option (plane_position s) \<subseteq> {Vector3 0 0 0}"

text \<open>Blob URLs: a load in flight has its URL live, and no URL is ahead of the counter.\<close>

definition urls_ok :: "state \<Rightarrow> bool" where
  "urls_ok s \<longleftrightarrow> set (loads s) \<subseteq> blob_live s \<and> blob_live s \<subseteq> {0..blob_last s}"

text \<open>The URL whose load an event ends, if it ends one.\<close>

fun load_end :: "event \<Rightarrow> nat option" where
  "load_end (EvLoad url tex) = Some url"
| "load_end (EvLoadError url) = Some url"
| "load_end e = None"

text \<open>The event that completes a load with its texture.\<close>

fun is_load :: "event \<Rightarrow> bool" where
  "is_load (EvLoad url tex) = True"
| "is_load e = False"

text \<open>
  \<open>synced\<close>: the renderer, the camera's frustum and the overlay canvas have the
  container's client size.
\<close>

definition synced :: "state \<Rightarrow> bool" where
  "synced s \<longleftrightarrow>
     (case containerRef s of None \<Rightarrow> False | Some c \<Rightarrow>
        map_option (\<lambda>r. (rd_width r, rd_height r)) (renderer s)
          = Some (clientWidth c, clientHeight c) \<and>
        map_option (\<lambda>k. (cam_left k, cam_right k, cam_top k, cam_bottom k)) (camera s)
          = Some (- real (clientWidth c) / 2, real (clientWidth c) / 2,
                  real (clientHeight c) / 2, - real (clientHeight c) / 2) \<and>
        map_option (\<lambda>v. (cv_width v, cv_height v)) (overlay s)
          = Some (clientWidth c, clientHeight c))"

section \<open>Basic facts\<close>

text \<open>
  The state an outcome leaves, and the example library's comparison with \<open>SNAP_DIST\<close>
  without the root.
\<close>

lemma state_of_simps:
  "state_of (Inr s) = s" "state_of (Inl (e, s)) = s"
  by (simp_all add: state_of_def)

lemma sqrt_less_pos: "0 < d \<Longrightarrow> sqrt v < d \<longleftrightarrow> v < d * d"
proof -
  assume d: "0 < d"
  have "sqrt v < d \<longleftrightarrow> sqrt v < sqrt (d * d)" using d by simp
  also have "\<dots> \<longleftrightarrow> v < d * d" by (rule real_sqrt_less_iff)
  finally show ?thesis .
qed

lemma euclidean_snap:
  "euclidean a b < SNAP_DIST \<longleftrightarrow>
     (v2_x a - v2_x b) * (v2_x a - v2_x b) + (v2_y a - v2_y b) * (v2_y a - v2_y b) < 400"
  by (simp add: euclidean_def SNAP_DIST_def sqrt_less_pos)

text \<open>The mounted component, and the load callback, as one record update each.\<close>

lemma mounted_eq:
  "mounted L c =
     (initial c)\<lparr>
       camera := Some \<lparr>cam_left = - real (clientWidth c) / 2, cam_right = real (clientWidth c) / 2,
                       cam_top = real (clientHeight c) / 2, cam_bottom = - real (clientHeight c) / 2,
                       cam_near = 0.1, cam_far = 1000, cam_position = Vector3 0 0 10\<rparr>,
       renderer := Some \<lparr>rd_width = clientWidth c, rd_height = clientHeight c,
                         rd_pixelRatio = devicePixelRatio L\<rparr>,
       overlayCtx := Some [],
       overlay := Some \<lparr>cv_width = clientWidth c, cv_height = clientHeight c\<rparr>,
       resize_listening := True,
       raf_last := 1, raf_pending := {1}, animationId := Some 1,
       effects := [AddResizeListener, RequestAnimationFrame 1]\<rparr>"
  by (simp add: mounted_def onMounted_def initial_def resizeAll_def loop_def
      requestAnimationFrame_def addResizeListener_def state_of_def Let_def)

lemma onLoad_eq:
  "onLoad url tex s =
     s\<lparr>imgW := real (image_width tex), imgH := real (image_height tex),
       planeMesh := Some (new_Mesh (PlaneGeometry (real (image_width tex)) (real (image_height tex)))
                            (MapMaterial tex)),
       scene := scene s @ [new_Mesh (PlaneGeometry (real (image_width tex)) (real (image_height tex)))
                            (MapMaterial tex)],
       blob_live := blob_live s - {url},
       effects := effects s @
         [SceneAdd (new_Mesh (PlaneGeometry (real (image_width tex)) (real (image_height tex)))
                      (MapMaterial tex)),
          RevokeObjectURL url]\<rparr>"
  by (simp add: onLoad_def scene_add_def revokeObjectURL_def Let_def)

lemma onFileChange_Some:
  "blob_last (onFileChange (Some f) s) = blob_last s + 1 \<and>
   blob_live (onFileChange (Some f) s) = insert (blob_last s + 1) (blob_live s) \<and>
   loads (onFileChange (Some f) s) = loads s @ [blob_last s + 1] \<and>
   effects (onFileChange (Some f) s) = effects s @ [CreateObjectURL (blob_last s + 1)]"
  by (simp add: onFileChange_def createObjectURL_def Let_def)

lemma onFileChange_None: "onFileChange None s = s"
  by (simp add: onFileChange_def)

lemma new_Shape_simps:
  "new_Shape [] = Inl TypeError" "vs \<noteq> [] \<Longrightarrow> new_Shape vs = Inr (Shape vs)"
  by (simp_all add: new_Shape_def split: list.splits)

lemma createShape_empty:
  assumes "points s = []"
  shows "createShape s = Inl (TypeError, s)"
  using assms by (simp add: createShape_def new_Shape_simps)

lemma createShape_returns:
  assumes "overlayCtx s = Some ctx" "overlay s = Some cv" "points s \<noteq> []"
  shows "createShape s =
     Inr (s\<lparr>scene := scene s @ [new_Mesh (ShapeGeometry (Shape (map (\<lambda>p. Vector2 (wx p) (wy p)) (points s))))
                                   (ColorMaterial 0xff0000 DoubleSide 0.5 True)],
            effects := effects s @ [SceneAdd (new_Mesh (ShapeGeometry (Shape (map (\<lambda>p. Vector2 (wx p) (wy p)) (points s))))
                                   (ColorMaterial 0xff0000 DoubleSide 0.5 True))],
            overlayCtx := Some (ctx @ [ClearRect 0 0 (real (cv_width cv)) (real (cv_height cv))]),
            points := []\<rparr>)"
  using assms by (simp add: createShape_def new_Shape_simps scene_add_def Let_def)

subsection \<open>What each handler leaves alone\<close>

lemma onPointerMove_frame:
  "scene (state_of (onPointerMove L ev s)) = scene s \<and>
   containerRef (state_of (onPointerMove L ev s)) = containerRef s \<and>
   overlay (state_of (onPointerMove L ev s)) = overlay s \<and>
   overlayCtx (state_of (onPointerMove L ev s)) = overlayCtx s \<and>
   camera (state_of (onPointerMove L ev s)) = camera s \<and>
   renderer (state_of (onPointerMove L ev s)) = renderer s \<and>
   animationId (state_of (onPointerMove L ev s)) = animationId s \<and>
   planeMesh (state_of (onPointerMove L ev s)) = planeMesh s \<and>
   imgW (state_of (onPointerMove L ev s)) = imgW s \<and>
   imgH (state_of (onPointerMove L ev s)) = imgH s \<and>
   points (state_of (onPointerMove L ev s)) = points s \<and>
   raf_last (state_of (onPointerMove L ev s)) = raf_last s \<and>
   raf_pending (state_of (onPointerMove L ev s)) = raf_pending s \<and>
   blob_last (state_of (onPointerMove L ev s)) = blob_last s \<and>
   blob_live (state_of (onPointerMove L ev s)) = blob_live s \<and>
   loads (state_of (onPointerMove L ev s)) = loads s \<and>
   resize_listening (state_of (onPointerMove L ev s)) = resize_listening s \<and>
   (coordLabel (state_of (onPointerMove L ev s)) = None) = (coordLabel s = None)"
  by (simp add: onPointerMove_def state_of_def Let_def split: option.splits list.splits)

lemma createShape_frame:
  "containerRef (state_of (createShape s)) = containerRef s \<and>
   coordLabel (state_of (createShape s)) = coordLabel s \<and>
   overlay (state_of (createShape s)) = overlay s \<and>
   camera (state_of (createShape s)) = camera s \<and>
   renderer (state_of (createShape s)) = renderer s \<and>
   animationId (state_of (createShape s)) = animationId s \<and>
   pointer (state_of (createShape s)) = pointer s \<and>
   planeMesh (state_of (createShape s)) = planeMesh s \<and>
   imgW (state_of (createShape s)) = imgW s \<and>
   imgH (state_of (createShape s)) = imgH s \<and>
   raf_last (state_of (createShape s)) = raf_last s \<and>
   raf_pending (state_of (createShape s)) = raf_pending s \<and>
   blob_last (state_of (createShape s)) = blob_last s \<and>
   blob_live (state_of (createShape s)) = blob_live s \<and>
   loads (state_of (createShape s)) = loads s \<and>
   resize_listening (state_of (createShape s)) = resize_listening s \<and>
   (overlayCtx (state_of (createShape s)) = None) = (overlayCtx s = None) \<and>
   scene (state_of (createShape s)) =
     (if points s = [] then scene s
      else scene s @
        [new_Mesh (ShapeGeometry (Shape (map (\<lambda>p. Vector2 (wx p) (wy p)) (points s))))
                  (ColorMaterial 0xff0000 DoubleSide 0.5 True)])"
  by (cases "points s = []")
    (simp_all add: createShape_def new_Shape_simps scene_add_def state_of_def Let_def
      split: option.splits)

lemma drawOverlay_frame:
  "scene (drawOverlay s) = scene s \<and>
   containerRef (drawOverlay s) = containerRef s \<and>
   coordLabel (drawOverlay s) = coordLabel s \<and>
   overlay (drawOverlay s) = overlay s \<and>
   camera (drawOverlay s) = camera s \<and>
   renderer (drawOverlay s) = renderer s \<and>
   animationId (drawOverlay s) = animationId s \<and>
   pointer (drawOverlay s) = pointer s \<and>
   planeMesh (drawOverlay s) = planeMesh s \<and>
   imgW (drawOverlay s) = imgW s \<and>
   imgH (drawOverlay s) = imgH s \<and>
   points (drawOverlay s) = points s \<and>
   raf_last (drawOverlay s) = raf_last s \<and>
   raf_pending (drawOverlay s) = raf_pending s \<and>
   blob_last (drawOverlay s) = blob_last s \<and>
   blob_live (drawOverlay s) = blob_live s \<and>
   loads (drawOverlay s) = loads s \<and>
   resize_listening (drawOverlay s) = resize_listening s \<and>
   (overlayCtx (drawOverlay s) = None) = (overlayCtx s = None)"
  by (simp add: drawOverlay_def Let_def split: option.splits)

lemma onPointerDown_frame:
  "containerRef (state_of (onPointerDown L ev s)) = containerRef s \<and>
   coordLabel (state_of (onPointerDown L ev s)) = coordLabel s \<and>
   overlay (state_of (onPointerDown L ev s)) = overlay s \<and>
   camera (state_of (onPointerDown L ev s)) = camera s \<and>
   renderer (state_of (onPointerDown L ev s)) = renderer s \<and>
   animationId (state_of (onPointerDown L ev s)) = animationId s \<and>
   planeMesh (state_of (onPointerDown L ev s)) = planeMesh s \<and>
   imgW (state_of (onPointerDown L ev s)) = imgW s \<and>
   imgH (state_of (onPointerDown L ev s)) = imgH s \<and>
   raf_last (state_of (onPointerDown L ev s)) = raf_last s \<and>
   raf_pending (state_of (onPointerDown L ev s)) = raf_pending s \<and>
   blob_last (state_of (onPointerDown L ev s)) = blob_last s \<and>
   blob_live (state_of (onPointerDown L ev s)) = blob_live s \<and>
   loads (state_of (onPointerDown L ev s)) = loads s \<and>
   resize_listening (state_of (onPointerDown L ev s)) = resize_listening s \<and>
   (overlayCtx (state_of (onPointerDown L ev s)) = None) = (overlayCtx s = None)"
  by (simp add: onPointerDown_def Let_def state_of_simps createShape_frame drawOverlay_frame
      split: option.splits list.splits)

lemma onPointerDown_scene:
  "scene (state_of (onPointerDown L ev s)) = scene s \<or>
   scene (state_of (onPointerDown L ev s)) = scene s @
     [new_Mesh (ShapeGeometry (Shape (map (\<lambda>p. Vector2 (wx p) (wy p)) (points s))))
               (ColorMaterial 0xff0000 DoubleSide 0.5 True)]"
  by (simp add: onPointerDown_def Let_def state_of_simps createShape_frame drawOverlay_frame
      split: option.splits list.splits)


lemma onFileChange_frame:
  "scene (onFileChange f s) = scene s \<and>
   containerRef (onFileChange f s) = containerRef s \<and>
   coordLabel (onFileChange f s) = coordLabel s \<and>
   overlay (onFileChange f s) = overlay s \<and>
   overlayCtx (onFileChange f s) = overlayCtx s \<and>
   camera (onFileChange f s) = camera s \<and>
   renderer (onFileChange f s) = renderer s \<and>
   animationId (onFileChange f s) = animationId s \<and>
   pointer (onFileChange f s) = pointer s \<and>
   planeMesh (onFileChange f s) = planeMesh s \<and>
   imgW (onFileChange f s) = imgW s \<and>
   imgH (onFileChange f s) = imgH s \<and>
   points (onFileChange f s) = points s \<and>
   raf_last (onFileChange f s) = raf_last s \<and>
   raf_pending (onFileChange f s) = raf_pending s \<and>
   resize_listening (onFileChange f s) = resize_listening s"
  by (simp add: onFileChange_def createObjectURL_def Let_def split: option.splits)

lemma resizeAll_frame:
  "scene (state_of (resizeAll s)) = scene s \<and>
   containerRef (state_of (resizeAll s)) = containerRef s \<and>
   coordLabel (state_of (resizeAll s)) = coordLabel s \<and>
   overlayCtx (state_of (resizeAll s)) = overlayCtx s \<and>
   animationId (state_of (resizeAll s)) = animationId s \<and>
   pointer (state_of (resizeAll s)) = pointer s \<and>
   planeMesh (state_of (resizeAll s)) = planeMesh s \<and>
   imgW (state_of (resizeAll s)) = imgW s \<and>
   imgH (state_of (resizeAll s)) = imgH s \<and>
   points (state_of (resizeAll s)) = points s \<and>
   raf_last (state_of (resizeAll s)) = raf_last s \<and>
   raf_pending (state_of (resizeAll s)) = raf_pending s \<and>
   blob_last (state_of (resizeAll s)) = blob_last s \<and>
   blob_live (state_of (resizeAll s)) = blob_live s \<and>
   loads (state_of (resizeAll s)) = loads s \<and>
   resize_listening (state_of (resizeAll s)) = resize_listening s \<and>
   (overlay (state_of (resizeAll s)) = None) = (overlay s = None) \<and>
   (camera (state_of (resizeAll s)) = None) = (camera s = None) \<and>
   (renderer (state_of (resizeAll s)) = None) = (renderer s = None) \<and>
   camera_position (state_of (resizeAll s)) = camera_position s"
  by (simp add: resizeAll_def Let_def state_of_simps camera_position_def split: option.splits)

lemma loop_frame:
  "scene (state_of (loop s)) = scene s \<and>
   containerRef (state_of (loop s)) = containerRef s \<and>
   coordLabel (state_of (loop s)) = coordLabel s \<and>
   overlay (state_of (loop s)) = overlay s \<and>
   overlayCtx (state_of (loop s)) = overlayCtx s \<and>
   camera (state_of (loop s)) = camera s \<and>
   renderer (state_of (loop s)) = renderer s \<and>
   pointer (state_of (loop s)) = pointer s \<and>
   planeMesh (state_of (loop s)) = planeMesh s \<and>
   imgW (state_of (loop s)) = imgW s \<and>
   imgH (state_of (loop s)) = imgH s \<and>
   points (state_of (loop s)) = points s \<and>
   blob_last (state_of (loop s)) = blob_last s \<and>
   blob_live (state_of (loop s)) = blob_live s \<and>
   loads (state_of (loop s)) = loads s \<and>
   resize_listening (state_of (loop s)) = resize_listening s \<and>
   raf_last (state_of (loop s)) = raf_last s + 1 \<and>
   raf_pending (state_of (loop s)) = insert (raf_last s + 1) (raf_pending s) \<and>
   animationId (state_of (loop s)) = Some (raf_last s + 1)"
  by (simp add: loop_def requestAnimationFrame_def Let_def state_of_simps split: option.splits)

subsection \<open>The calls of a redraw and the marks they leave\<close>

lemma paint_append: "paint (a @ b) p = paint b (paint a p)"
  by (simp add: paint_def)

lemma paint_Nil: "paint [] p = p"
  by (simp add: paint_def)

lemma paint_Cons: "paint (x # xs) p = paint xs (paint_op x p)"
  by (simp add: paint_def)

lemma fold_LineTo:
  "fold (\<lambda>p c. c @ [LineTo (dx p) (dy p)]) ps c0 = c0 @ map (\<lambda>p. LineTo (dx p) (dy p)) ps"
  by (induction ps arbitrary: c0) auto

lemma fold_Arc:
  "fold (\<lambda>p c. c @ [BeginPath, Arc (dx p) (dy p) r a b, Fill]) ps c0
     = c0 @ concat (map (\<lambda>p. [BeginPath, Arc (dx p) (dy p) r a b, Fill]) ps)"
  by (induction ps arbitrary: c0) auto

lemma paint_lines:
  "paint (map (\<lambda>q. LineTo (dx q) (dy q)) ps) p
     = p\<lparr>path := path p @ map (\<lambda>q. SegLine (dx q) (dy q)) ps\<rparr>"
  by (induction ps arbitrary: p) (auto simp: paint_Nil paint_Cons)

lemma paint_discs:
  "paint (concat (map (\<lambda>q. [BeginPath, Arc (dx q) (dy q) r a b, Fill]) ps)) p
     = (if ps = [] then p
        else p\<lparr>path := [SegArc (dx (last ps)) (dy (last ps)) r a b],
               marks := marks p @ map (\<lambda>q. Filled (fillStyle p) [SegArc (dx q) (dy q) r a b]) ps\<rparr>)"
  by (induction ps arbitrary: p) (auto simp: paint_Nil paint_Cons)

lemma marks_paint_discs:
  "marks (paint (concat (map (\<lambda>q. [BeginPath, Arc (dx q) (dy q) r a b, Fill]) ps)) p)
     = marks p @ map (\<lambda>q. Filled (fillStyle p) [SegArc (dx q) (dy q) r a b]) ps"
  by (simp add: paint_discs)

lemma polyline_points:
  "ps \<noteq> [] \<Longrightarrow> polyline (map (\<lambda>q. (dx q, dy q)) ps)
     = SegMove (dx (ps ! 0)) (dy (ps ! 0)) # map (\<lambda>q. SegLine (dx q) (dy q)) (drop 1 ps)"
  by (cases ps) (auto simp: comp_def)

lemma drawOverlay_calls:
  assumes "overlayCtx s = Some ctx" "overlay s = Some cv"
  shows "drawOverlay s = s\<lparr>overlayCtx := Some (ctx @
            [ClearRect 0 0 (real (cv_width cv)) (real (cv_height cv)), StrokeStyle ''lime'', LineWidth 2]
            @ (if 1 < length (points s)
               then [BeginPath, MoveTo (dx (points s ! 0)) (dy (points s ! 0))]
                    @ map (\<lambda>q. LineTo (dx q) (dy q)) (drop 1 (points s)) @ [Stroke]
               else [])
            @ [FillStyle ''cyan'']
            @ concat (map (\<lambda>q. [BeginPath, Arc (dx q) (dy q) 5 0 (pi * 2), Fill]) (points s)))\<rparr>"
  using assms by (simp add: drawOverlay_def Let_def fold_LineTo fold_Arc)

section \<open>Invariants of a session\<close>

lemma session_Nil: "session L c [] = mounted L c"
  by (simp add: session_def)

lemma session_snoc: "session L c (evs @ [e]) = fire L e (session L c evs)"
  by (simp add: session_def)

lemma session_induct:
  assumes "P (mounted L c)" and "\<And>s e. P s \<Longrightarrow> P (fire L e s)"
  shows "P (session L c evs)"
  by (induction evs rule: rev_induct) (simp_all add: session_Nil session_snoc assms)

lemma alive_mounted: "alive (mounted L c)"
  by (simp add: alive_def mounted_eq initial_def)

lemma alive_fire: "alive s \<Longrightarrow> alive (fire L e s)"
  by (cases e)
    (simp_all add: alive_def onPointerMove_frame onPointerDown_frame onFileChange_frame onLoad_eq
      resizeAll_frame loop_frame relayout_def Let_def split: option.splits del: not_None_eq)

lemma alive_session: "alive (session L c evs)"
  by (rule session_induct) (simp_all add: alive_mounted alive_fire)

lemma still_mounted: "still (mounted L c)"
  by (simp add: still_def mounted_eq initial_def camera_position_def plane_position_def
      scene_positions_def)

lemma onPointerDown_positions:
  assumes "set (scene_positions s) \<subseteq> {Vector3 0 0 0}"
  shows "set (scene_positions (state_of (onPointerDown L ev s))) \<subseteq> {Vector3 0 0 0}"
proof -
  have "scene_positions (state_of (onPointerDown L ev s)) = scene_positions s \<or>
        scene_positions (state_of (onPointerDown L ev s)) = scene_positions s @ [Vector3 0 0 0]"
    using onPointerDown_scene [of L ev s]
    by (auto simp: scene_positions_def new_Mesh_def)
  then show ?thesis
  proof
    assume "scene_positions (state_of (onPointerDown L ev s)) = scene_positions s"
    with assms show ?thesis by simp
  next
    assume "scene_positions (state_of (onPointerDown L ev s)) = scene_positions s @ [Vector3 0 0 0]"
    with assms show ?thesis by simp
  qed
qed

lemma still_fire: "still s \<Longrightarrow> still (fire L e s)"
proof (cases e)
  case (EvPointerMove ev)
  assume "still s"
  then show ?thesis
    by (simp add: EvPointerMove still_def camera_position_def plane_position_def
        scene_positions_def onPointerMove_frame)
next
  case (EvPointerDown ev)
  assume "still s"
  then show ?thesis
    using onPointerDown_positions [of s L ev]
    by (simp add: EvPointerDown still_def camera_position_def plane_position_def
        onPointerDown_frame)
next
  case (EvFileChange f)
  assume "still s"
  then show ?thesis
    by (simp add: EvFileChange still_def camera_position_def plane_position_def
        scene_positions_def onFileChange_frame)
next
  case (EvLoad u tex)
  assume "still s"
  then show ?thesis
    by (simp add: EvLoad still_def onLoad_eq new_Mesh_def camera_position_def
        plane_position_def scene_positions_def)
next
  case (EvLoadError u)
  assume "still s"
  then show ?thesis
    by (simp add: EvLoadError still_def camera_position_def plane_position_def
        scene_positions_def)
next
  case (EvResize c')
  assume "still s"
  moreover have "camera_position (relayout c' s) = camera_position s"
    "planeMesh (relayout c' s) = planeMesh s"
    "scene (relayout c' s) = scene s"
    by (simp_all add: relayout_def camera_position_def split: option.splits)
  ultimately show ?thesis
    by (simp add: EvResize still_def Let_def plane_position_def scene_positions_def
        resizeAll_frame)
next
  case (EvFrame h)
  assume "still s"
  then show ?thesis
    by (simp add: EvFrame still_def camera_position_def plane_position_def
        scene_positions_def loop_frame)
qed

lemma still_session: "still (session L c evs)"
  by (rule session_induct) (simp_all add: still_mounted still_fire)

lemma urls_ok_mounted: "urls_ok (mounted L c)"
  by (simp add: urls_ok_def mounted_eq initial_def)

lemma urls_ok_fire: "urls_ok s \<Longrightarrow> urls_ok (fire L e s)"
proof (cases e)
  case (EvPointerMove ev)
  assume "urls_ok s"
  then show ?thesis by (simp add: EvPointerMove urls_ok_def onPointerMove_frame)
next
  case (EvPointerDown ev)
  assume "urls_ok s"
  then show ?thesis by (simp add: EvPointerDown urls_ok_def onPointerDown_frame)
next
  case (EvFileChange f)
  assume "urls_ok s"
  then show ?thesis using EvFileChange
    by (cases f) (auto simp: urls_ok_def onFileChange_None onFileChange_Some)
next
  case (EvLoad u tex)
  assume "urls_ok s"
  then show ?thesis by (auto simp: EvLoad urls_ok_def onLoad_eq)
next
  case (EvLoadError u)
  assume "urls_ok s"
  then show ?thesis by (auto simp: EvLoadError urls_ok_def)
next
  case (EvResize c')
  assume "urls_ok s"
  then show ?thesis
    by (simp add: EvResize urls_ok_def Let_def resizeAll_frame relayout_def split: option.splits)
next
  case (EvFrame h)
  assume "urls_ok s"
  then show ?thesis by (simp add: EvFrame urls_ok_def loop_frame)
qed

lemma urls_ok_session: "urls_ok (session L c evs)"
  by (rule session_induct) (simp_all add: urls_ok_mounted urls_ok_fire)

section \<open>The example, evaluated\<close>

lemma demo_loaded_eq:
  "demo_loaded =
     (mounted flat_lib demo_container)\<lparr>
        imgW := 400, imgH := 300,
        planeMesh := Some (new_Mesh (PlaneGeometry 400 300) (MapMaterial (Texture 400 300))),
        scene := [new_Mesh (PlaneGeometry 400 300) (MapMaterial (Texture 400 300))],
        blob_last := 1, blob_live := {}, loads := [],
        effects := [AddResizeListener, RequestAnimationFrame 1, CreateObjectURL 1,
                  SceneAdd (new_Mesh (PlaneGeometry 400 300) (MapMaterial (Texture 400 300))),
                  RevokeObjectURL 1]\<rparr>"
  by (simp add: demo_loaded_def session_def onFileChange_def createObjectURL_def onLoad_eq
      mounted_eq initial_def Let_def)


lemma demo_three_fields:
  "containerRef demo_three = Some demo_container"
  "camera demo_three = Some \<lparr>cam_left = - 400, cam_right = 400, cam_top = 300, cam_bottom = - 300,
      cam_near = 0.1, cam_far = 1000, cam_position = Vector3 0 0 10\<rparr>"
  "planeMesh demo_three = Some (new_Mesh (PlaneGeometry 400 300) (MapMaterial (Texture 400 300)))"
  "overlay demo_three = Some \<lparr>cv_width = 800, cv_height = 600\<rparr>"
  "points demo_three =
     [\<lparr>dx = 300, dy = 200, wx = - 100, wy = 100\<rparr>,
      \<lparr>dx = 500, dy = 200, wx = 100, wy = 100\<rparr>,
      \<lparr>dx = 500, dy = 400, wx = 100, wy = - 100\<rparr>]"
  "scene demo_three = [new_Mesh (PlaneGeometry 400 300) (MapMaterial (Texture 400 300))]"
  by (simp_all add: demo_three_def demo_loaded_eq mounted_eq initial_def demo_container_def
      onPointerDown_def drawOverlay_def flat_lib_def flat_raycast_def new_Mesh_def Let_def
      state_of_simps)

lemma demo_three_session:
  "demo_three = session flat_lib demo_container
     [EvFileChange (Some (File ''plan.png'')), EvLoad 1 (Texture 400 300),
      EvPointerDown \<lparr>clientX = 300, clientY = 264\<rparr>,
      EvPointerDown \<lparr>clientX = 500, clientY = 264\<rparr>,
      EvPointerDown \<lparr>clientX = 500, clientY = 464\<rparr>]"
  by (simp add: demo_three_def demo_loaded_def session_def)

lemma demo_three_ctx: "\<exists>ctx. overlayCtx demo_three = Some ctx"
  using alive_session [of flat_lib demo_container] unfolding demo_three_session alive_def
  by auto

lemma demo_loaded_fields:
  "containerRef demo_loaded = Some demo_container"
  "coordLabel demo_loaded = Some \<lparr>style_left = Unset, style_top = Unset, textContent = []\<rparr>"
  "camera demo_loaded = Some \<lparr>cam_left = - 400, cam_right = 400, cam_top = 300, cam_bottom = - 300,
      cam_near = 0.1, cam_far = 1000, cam_position = Vector3 0 0 10\<rparr>"
  "planeMesh demo_loaded = Some (new_Mesh (PlaneGeometry 400 300) (MapMaterial (Texture 400 300)))"
  "imgW demo_loaded = 400" "imgH demo_loaded = 300"
  by (simp_all add: demo_loaded_eq mounted_eq initial_def demo_container_def)

lemma fixed0_examples: "fixed0 100 0 = ''100''" "fixed0 50 0 = ''50''"
  by code_simp+

lemma demo_close_scene:
  "scene (state_of (onPointerDown flat_lib \<lparr>clientX = 310, clientY = 264\<rparr> demo_three))
     \<noteq> scene demo_three"
  by (simp add: onPointerDown_def Let_def demo_three_fields demo_container_def flat_lib_def
      flat_raycast_def new_Mesh_def euclidean_snap [unfolded SNAP_DIST_def] SNAP_DIST_def
      createShape_frame)

subsection \<open>A load in flight, and unmounting\<close>

lemma load_in_flight_fire:
  assumes "url \<in> set (loads s)" and "url \<in> blob_live s" and "load_end e \<noteq> Some url"
  shows "url \<in> set (loads (fire L e s)) \<and> url \<in> blob_live (fire L e s)"
proof (cases e)
  case (EvFileChange f)
  then show ?thesis using assms
    by (cases f) (simp_all add: onFileChange_None onFileChange_Some)
next
  case (EvResize c')
  then show ?thesis using assms
    by (simp add: Let_def resizeAll_frame relayout_def split: option.splits)
qed (use assms in \<open>simp_all add: onPointerMove_frame onPointerDown_frame onLoad_eq loop_frame\<close>)

lemma load_in_flight_fold:
  assumes "url \<in> set (loads s)" and "url \<in> blob_live s"
    and "Some url \<notin> set (map load_end evs)"
  shows "url \<in> set (loads (fold (fire L) evs s)) \<and> url \<in> blob_live (fold (fire L) evs s)"
  using assms
proof (induction evs arbitrary: s)
  case Nil
  then show ?case by simp
next
  case (Cons e evs)
  have "url \<in> set (loads (fire L e s)) \<and> url \<in> blob_live (fire L e s)"
    using Cons.prems by (intro load_in_flight_fire) auto
  then show ?case using Cons.prems Cons.IH [of "fire L e s"] by simp
qed

lemma onUnmounted_alive:
  assumes "alive s"
  shows "raf_pending (onUnmounted s) = {} \<and> \<not> resize_listening (onUnmounted s) \<and>
         animationId s = Some (raf_last s) \<and> raf_pending s = {raf_last s}"
  using assms
  by (simp add: alive_def onUnmounted_def removeResizeListener_def cancelAnimationFrame_def
      Let_def)

subsection \<open>Sizes follow the container\<close>

lemma synced_mounted: "synced (mounted L c)"
  by (simp add: synced_def mounted_eq initial_def)

lemma synced_resizeAll:
  assumes "alive s"
  shows "synced (state_of (resizeAll s))"
  using assms
  by (auto simp: alive_def synced_def resizeAll_def Let_def state_of_simps)

lemma alive_relayout: "alive s \<Longrightarrow> alive (relayout c s)"
  by (auto simp: alive_def relayout_def)

lemma synced_fire:
  assumes "alive s" and "synced s"
  shows "synced (fire L e s)"
proof (cases e)
  case (EvResize c')
  have "resize_listening (relayout c' s)"
    using alive_relayout [OF assms(1), of c'] by (simp add: alive_def)
  then show ?thesis
    using synced_resizeAll [OF alive_relayout [OF assms(1), of c']]
    by (simp add: EvResize Let_def)
qed (use assms(2) in \<open>simp_all add: synced_def onPointerMove_frame onPointerDown_frame
      onFileChange_frame onLoad_eq loop_frame split: option.splits\<close>)

lemma synced_session: "synced (session L c evs)"
proof (induction evs rule: rev_induct)
  case Nil
  then show ?case by (simp add: session_Nil synced_mounted)
next
  case (snoc e evs)
  then show ?case
    using synced_fire [OF alive_session [of L c evs]] by (simp add: session_snoc)
qed

subsection \<open>Before an image is loaded\<close>

lemma no_plane_fire:
  assumes "planeMesh s = None" and "\<not> is_load e"
  shows "planeMesh (fire L e s) = None"
  using assms
  by (cases e)
    (simp_all add: onPointerMove_frame onPointerDown_frame onFileChange_frame
      resizeAll_frame loop_frame relayout_def Let_def split: option.splits)

lemma no_plane_session:
  assumes "\<forall>e \<in> set evs. \<not> is_load e"
  shows "planeMesh (session L c evs) = None"
  using assms
proof (induction evs rule: rev_induct)
  case Nil
  then show ?case by (simp add: session_Nil mounted_eq initial_def)
next
  case (snoc e evs)
  then show ?case by (simp add: session_snoc no_plane_fire)
qed

lemma throws_without_plane:
  assumes "alive s" and "planeMesh s = None"
  shows "(\<exists>s'. onPointerMove L ev s = Inl (TypeError, s')) \<and>
         (\<exists>s'. onPointerDown L ev s = Inl (TypeError, s'))"
  using assms
  by (auto simp: alive_def onPointerMove_def onPointerDown_def Let_def)

section \<open>The claims\<close>

text \<open>
  C1. A pointer-down whose ray hits the plane closes the sequence exactly when at
  least three points are stored and the distance \<open>distanceTo\<close> returns, from the first
  stored point to the hit, is below 20. Closing adds to the scene the filled polygon
  (a red, half transparent, double-sided mesh) over the shape of the stored points,
  clears the overlay and drops the points: no point is appended. In every other case
  the scene is left alone, the point is appended with its display and world
  coordinates, and the overlay is redrawn.
\<close>

theorem onPointerDown_closes_or_stores:
  assumes "containerRef s = Some c"
    and "rect_width (boundingClientRect c) \<noteq> 0" and "rect_height (boundingClientRect c) \<noteq> 0"
    and "camera s = Some cam" and "planeMesh s = Some m"
    and "overlayCtx s = Some ctx" and "overlay s = Some cv"
    and "x = clientX ev - rect_left (boundingClientRect c)"
    and "y = clientY ev - rect_top (boundingClientRect c)"
    and "ndc = Vector2 (x / rect_width (boundingClientRect c) * 2 - 1)
                       (- (y / rect_height (boundingClientRect c)) * 2 + 1)"
    and "raycast L ndc cam m = h # rest"
    and "polygon = new_Mesh (ShapeGeometry (Shape (map (\<lambda>p. Vector2 (wx p) (wy p)) (points s))))
                            (ColorMaterial 0xff0000 DoubleSide 0.5 True)"
    and "pt = \<lparr>dx = x, dy = y, wx = v3_x (hit_point h), wy = v3_y (hit_point h)\<rparr>"
  shows "\<exists>s'. onPointerDown L ev s = Inr s' \<and>
           ((scene s' \<noteq> scene s) \<longleftrightarrow>
              (3 \<le> length (points s) \<and>
               distanceTo L (Vector2 (wx (points s ! 0)) (wy (points s ! 0)))
                            (Vector2 (v3_x (hit_point h)) (v3_y (hit_point h))) < 20)) \<and>
           (scene s' \<noteq> scene s \<longrightarrow>
              s' = s\<lparr>pointer := ndc,
                     scene := scene s @ [polygon],
                     effects := effects s @ [SceneAdd polygon],
                     overlayCtx :=
                       Some (ctx @ [ClearRect 0 0 (real (cv_width cv)) (real (cv_height cv))]),
                     points := []\<rparr>) \<and>
           (scene s' = scene s \<longrightarrow>
              s' = drawOverlay (s\<lparr>pointer := ndc, points := points s @ [pt]\<rparr>) \<and>
              points s' = points s @ [pt])"
proof (cases "3 \<le> length (points s) \<and>
               distanceTo L (Vector2 (wx (points s ! 0)) (wy (points s ! 0)))
                            (Vector2 (v3_x (hit_point h)) (v3_y (hit_point h))) < SNAP_DIST")
  case True
  then have ne: "points s \<noteq> []" by auto
  have "createShape (s\<lparr>pointer := ndc\<rparr>)
      = Inr (s\<lparr>pointer := ndc,
               scene := scene s @ [polygon],
               effects := effects s @ [SceneAdd polygon],
               overlayCtx :=
                 Some (ctx @ [ClearRect 0 0 (real (cv_width cv)) (real (cv_height cv))]),
               points := []\<rparr>)"
    using assms(6,7,12) ne by (simp add: createShape_returns)
  then show ?thesis using True assms
    by (simp add: onPointerDown_def Let_def SNAP_DIST_def)
next
  case False
  then show ?thesis using assms
    by (auto simp add: onPointerDown_def Let_def drawOverlay_frame SNAP_DIST_def)
qed

theorem onPointerDown_closes_or_stores_witness:
  "(\<exists>s'. onPointerDown flat_lib \<lparr>clientX = 310, clientY = 264\<rparr> demo_three = Inr s' \<and>
         scene s' = scene demo_three @
           [new_Mesh (ShapeGeometry (Shape [Vector2 (- 100) 100, Vector2 100 100, Vector2 100 (- 100)]))
                     (ColorMaterial 0xff0000 DoubleSide 0.5 True)] \<and>
         points s' = []) \<and>
   (\<exists>s'. onPointerDown flat_lib \<lparr>clientX = 300, clientY = 464\<rparr> demo_three = Inr s' \<and>
         scene s' = scene demo_three \<and>
         points s' = points demo_three @ [\<lparr>dx = 300, dy = 400, wx = - 100, wy = - 100\<rparr>])"
proof -
  obtain ctx where ctx: "overlayCtx demo_three = Some ctx"
    using demo_three_ctx by blast
  have r: "rect_width (boundingClientRect demo_container) \<noteq> 0"
    "rect_height (boundingClientRect demo_container) \<noteq> 0"
    by (simp_all add: demo_container_def)
  let ?cam = "\<lparr>cam_left = - 400, cam_right = 400, cam_top = 300, cam_bottom = - 300,
      cam_near = 0.1, cam_far = 1000, cam_position = Vector3 0 0 10\<rparr>"
  let ?m = "new_Mesh (PlaneGeometry 400 300) (MapMaterial (Texture 400 300))"
  have near: "raycast flat_lib
      (Vector2 ((clientX \<lparr>clientX = 310, clientY = 264\<rparr>
                   - rect_left (boundingClientRect demo_container))
                 / rect_width (boundingClientRect demo_container) * 2 - 1)
               (- ((clientY \<lparr>clientX = 310, clientY = 264\<rparr>
                   - rect_top (boundingClientRect demo_container))
                 / rect_height (boundingClientRect demo_container)) * 2 + 1)) ?cam ?m
     = \<lparr>hit_point = Vector3 (- 90) 100 0, hit_uv = Some (Vector2 (11 / 40) (5 / 6))\<rparr> # []"
    by (simp add: flat_lib_def flat_raycast_def demo_container_def new_Mesh_def)
  have far: "raycast flat_lib
      (Vector2 ((clientX \<lparr>clientX = 300, clientY = 464\<rparr>
                   - rect_left (boundingClientRect demo_container))
                 / rect_width (boundingClientRect demo_container) * 2 - 1)
               (- ((clientY \<lparr>clientX = 300, clientY = 464\<rparr>
                   - rect_top (boundingClientRect demo_container))
                 / rect_height (boundingClientRect demo_container)) * 2 + 1)) ?cam ?m
     = \<lparr>hit_point = Vector3 (- 100) (- 100) 0, hit_uv = Some (Vector2 (1 / 4) (1 / 6))\<rparr> # []"
    by (simp add: flat_lib_def flat_raycast_def demo_container_def new_Mesh_def)
  have d: "distanceTo flat_lib = euclidean"
    by (simp add: flat_lib_def)
  have a: "\<exists>s'. onPointerDown flat_lib \<lparr>clientX = 310, clientY = 264\<rparr> demo_three = Inr s' \<and>
         scene s' = scene demo_three @
           [new_Mesh (ShapeGeometry (Shape [Vector2 (- 100) 100, Vector2 100 100, Vector2 100 (- 100)]))
                     (ColorMaterial 0xff0000 DoubleSide 0.5 True)] \<and>
         points s' = []"
    using onPointerDown_closes_or_stores
      [OF demo_three_fields(1) r demo_three_fields(2,3) ctx demo_three_fields(4) refl refl refl
        near refl refl]
    by (auto simp: demo_three_fields d euclidean_def demo_container_def drawOverlay_frame)
  have b: "\<exists>s'. onPointerDown flat_lib \<lparr>clientX = 300, clientY = 464\<rparr> demo_three = Inr s' \<and>
         scene s' = scene demo_three \<and>
         points s' = points demo_three @ [\<lparr>dx = 300, dy = 400, wx = - 100, wy = - 100\<rparr>]"
    using onPointerDown_closes_or_stores
      [OF demo_three_fields(1) r demo_three_fields(2,3) ctx demo_three_fields(4) refl refl refl
        far refl refl]
    by (auto simp: demo_three_fields d euclidean_def demo_container_def drawOverlay_frame)
  from a b show ?thesis by blast
qed

text \<open>
  C2. A pointer move at \<open>(px, py)\<close> relative to the container's rectangle of width \<open>w\<close>
  and height \<open>h\<close> sets the pointer to \<open>((px / w) * 2 - 1, - (py / h) * 2 + 1)\<close>, as a
  pointer-down does; the ray is cast from there against the plane mesh; without a hit
  the label shows a dash, and with a hit it shows the texture coordinate
  \<open>(uv.x * imgW, (1 - uv.y) * imgH)\<close>, each number printed by \<open>toFixed(0)\<close>, at the
  pointer's place, 20 pixels up.
\<close>

theorem pointer_to_texture_coordinate:
  assumes "containerRef s = Some c" and "coordLabel s = Some lbl"
    and "camera s = Some cam" and "planeMesh s = Some m"
    and "w = rect_width (boundingClientRect c)" and "h = rect_height (boundingClientRect c)"
    and "w \<noteq> 0" and "h \<noteq> 0"
    and "px = clientX ev - rect_left (boundingClientRect c)"
    and "py = clientY ev - rect_top (boundingClientRect c)"
  shows "pointer (state_of (onPointerMove L ev s)) = Vector2 ((px / w) * 2 - 1) (- (py / h) * 2 + 1) \<and>
         pointer (state_of (onPointerDown L ev s)) = Vector2 ((px / w) * 2 - 1) (- (py / h) * 2 + 1) \<and>
         (raycast L (Vector2 ((px / w) * 2 - 1) (- (py / h) * 2 + 1)) cam m = [] \<longrightarrow>
            onPointerMove L ev s
              = Inr (s\<lparr>pointer := Vector2 ((px / w) * 2 - 1) (- (py / h) * 2 + 1),
                       coordLabel := Some (lbl\<lparr>textContent := em_dash\<rparr>)\<rparr>)) \<and>
         (\<forall>hit rest uv.
            raycast L (Vector2 ((px / w) * 2 - 1) (- (py / h) * 2 + 1)) cam m = hit # rest \<longrightarrow>
            hit_uv hit = Some uv \<longrightarrow>
            onPointerMove L ev s
              = Inr (s\<lparr>pointer := Vector2 ((px / w) * 2 - 1) (- (py / h) * 2 + 1),
                       coordLabel := Some (lbl\<lparr>
                         style_left := Px px, style_top := Px (py - 20),
                         textContent :=
                           ''('' @ toFixed L (v2_x uv * imgW s) 0 @ '', ''
                                 @ toFixed L ((1 - v2_y uv) * imgH s) 0 @ '')''\<rparr>)\<rparr>))"
proof -
  have "pointer (state_of (onPointerDown L ev s)) = Vector2 ((px / w) * 2 - 1) (- (py / h) * 2 + 1)"
    using assms
    by (simp add: onPointerDown_def Let_def state_of_simps createShape_frame drawOverlay_frame
        split: list.splits)
  moreover have "pointer (state_of (onPointerMove L ev s)) = Vector2 ((px / w) * 2 - 1) (- (py / h) * 2 + 1)"
    using assms
    by (simp add: onPointerMove_def Let_def state_of_simps split: list.splits option.splits)
  ultimately show ?thesis
    using assms by (simp add: onPointerMove_def Let_def)
qed

theorem pointer_to_texture_coordinate_witness:
  "pointer (state_of (onPointerMove flat_lib \<lparr>clientX = 300, clientY = 264\<rparr> demo_loaded))
     = Vector2 (- (1 / 4)) (1 / 3) \<and>
   pointer (state_of (onPointerDown flat_lib \<lparr>clientX = 300, clientY = 264\<rparr> demo_loaded))
     = Vector2 (- (1 / 4)) (1 / 3) \<and>
   map_option textContent
     (coordLabel (state_of (onPointerMove flat_lib \<lparr>clientX = 300, clientY = 264\<rparr> demo_loaded)))
     = Some ''(100, 50)''"
proof -
  have ray: "raycast flat_lib (Vector2 (300 / 800 * 2 - 1) (- (200 / 600) * 2 + 1))
       \<lparr>cam_left = - 400, cam_right = 400, cam_top = 300, cam_bottom = - 300,
        cam_near = 0.1, cam_far = 1000, cam_position = Vector3 0 0 10\<rparr>
       (new_Mesh (PlaneGeometry 400 300) (MapMaterial (Texture 400 300)))
     = [\<lparr>hit_point = Vector3 (- 100) 100 0, hit_uv = Some (Vector2 (1 / 4) (5 / 6))\<rparr>]"
    by (simp add: flat_lib_def flat_raycast_def new_Mesh_def)
  have tf: "toFixed flat_lib = fixed0"
    by (simp add: flat_lib_def)
  have g: "(800::real) = rect_width (boundingClientRect demo_container)"
    "(600::real) = rect_height (boundingClientRect demo_container)"
    "(800::real) \<noteq> 0" "(600::real) \<noteq> 0"
    "(300::real) = clientX \<lparr>clientX = 300, clientY = 264\<rparr> - rect_left (boundingClientRect demo_container)"
    "(200::real) = clientY \<lparr>clientX = 300, clientY = 264\<rparr> - rect_top (boundingClientRect demo_container)"
    by (simp_all add: demo_container_def)
  note T = pointer_to_texture_coordinate [OF demo_loaded_fields(1,2,3,4) g, of flat_lib]
  have a: "pointer (state_of (onPointerMove flat_lib \<lparr>clientX = 300, clientY = 264\<rparr> demo_loaded))
     = Vector2 (- (1 / 4)) (1 / 3)"
    using T [THEN conjunct1] by simp
  have b: "pointer (state_of (onPointerDown flat_lib \<lparr>clientX = 300, clientY = 264\<rparr> demo_loaded))
     = Vector2 (- (1 / 4)) (1 / 3)"
    using T [THEN conjunct2, THEN conjunct1] by simp
  have "onPointerMove flat_lib \<lparr>clientX = 300, clientY = 264\<rparr> demo_loaded
      = Inr (demo_loaded\<lparr>pointer := Vector2 (300 / 800 * 2 - 1) (- (200 / 600) * 2 + 1),
               coordLabel := Some (\<lparr>style_left = Unset, style_top = Unset, textContent = []\<rparr>\<lparr>
                 style_left := Px 300, style_top := Px (200 - 20),
                 textContent :=
                   ''('' @ toFixed flat_lib (v2_x (Vector2 (1 / 4) (5 / 6)) * imgW demo_loaded) 0 @ '', ''
                         @ toFixed flat_lib ((1 - v2_y (Vector2 (1 / 4) (5 / 6))) * imgH demo_loaded) 0
                         @ '')''\<rparr>)\<rparr>)"
    using T [THEN conjunct2, THEN conjunct2, THEN conjunct2, THEN spec, THEN spec, THEN spec,
        THEN mp, THEN mp, OF ray]
    by simp
  then have c: "map_option textContent
     (coordLabel (state_of (onPointerMove flat_lib \<lparr>clientX = 300, clientY = 264\<rparr> demo_loaded)))
     = Some ''(100, 50)''"
    by (simp add: state_of_simps tf demo_loaded_fields fixed0_examples)
  from a b c show ?thesis by simp
qed

text \<open>
  C3, as the specification states it, fails: no pointer move and no pointer-down, in
  any state, changes the position of the camera or of the plane.
\<close>

theorem pannable_counterexample:
  "\<not> (\<exists>L ev s.
        camera_position (state_of (onPointerMove L ev s)) \<noteq> camera_position s \<or>
        camera_position (state_of (onPointerDown L ev s)) \<noteq> camera_position s \<or>
        plane_position (state_of (onPointerMove L ev s)) \<noteq> plane_position s \<or>
        plane_position (state_of (onPointerDown L ev s)) \<noteq> plane_position s)"
  by (simp add: camera_position_def plane_position_def onPointerMove_frame onPointerDown_frame)

text \<open>
  C3, amended. The view cannot be panned: whatever events follow the mounting, the
  camera stays at \<open>(0, 0, 10)\<close>, and the plane and every mesh of the scene stay at the
  origin.
\<close>

theorem view_never_moves:
  "camera_position (session L c evs) = Some (Vector3 0 0 10) \<and>
   set (scene_positions (session L c evs)) \<subseteq> {Vector3 0 0 0} \<and>
   set_option (plane_position (session L c evs)) \<subseteq> {Vector3 0 0 0}"
  using still_session [of L c evs] by (simp add: still_def)

theorem view_never_moves_witness:
  "camera_position demo_three = Some (Vector3 0 0 10) \<and>
   set (scene_positions demo_three) \<subseteq> {Vector3 0 0 0} \<and>
   set_option (plane_position demo_three) \<subseteq> {Vector3 0 0 0}"
  unfolding demo_three_session by (rule view_never_moves)

text \<open>
  C4. After \<open>resizeAll\<close>, with the container's client size \<open>(w, h)\<close>: the renderer's
  size is \<open>(w, h)\<close>, the camera's frustum has \<open>left = -w/2\<close>, \<open>right = w/2\<close>,
  \<open>top = h/2\<close>, \<open>bottom = -h/2\<close>, and the overlay canvas is \<open>w\<close> wide and \<open>h\<close> high.
\<close>

theorem resizeAll_synchronises:
  assumes "containerRef s = Some c" and "renderer s = Some rd" and "camera s = Some cam"
    and "overlay s = Some cv"
    and "w = clientWidth c" and "h = clientHeight c"
  shows "\<exists>s' rd' cam' cv'. resizeAll s = Inr s' \<and>
     renderer s' = Some rd' \<and> rd_width rd' = w \<and> rd_height rd' = h \<and>
     camera s' = Some cam' \<and>
     cam_left cam' = - real w / 2 \<and> cam_right cam' = real w / 2 \<and>
     cam_top cam' = real h / 2 \<and> cam_bottom cam' = - real h / 2 \<and>
     overlay s' = Some cv' \<and> cv_width cv' = w \<and> cv_height cv' = h"
  using assms by (simp add: resizeAll_def Let_def)

theorem resizeAll_synchronises_witness:
  "\<exists>s' rd' cam' cv'. resizeAll (relayout \<lparr>boundingClientRect =
          \<lparr>rect_left = 0, rect_top = 64, rect_width = 1024, rect_height = 704\<rparr>,
          clientWidth = 1024, clientHeight = 704\<rparr> demo_three) = Inr s' \<and>
     renderer s' = Some rd' \<and> rd_width rd' = 1024 \<and> rd_height rd' = 704 \<and>
     camera s' = Some cam' \<and>
     cam_left cam' = - 512 \<and> cam_right cam' = 512 \<and>
     cam_top cam' = 352 \<and> cam_bottom cam' = - 352 \<and>
     overlay s' = Some cv' \<and> cv_width cv' = 1024 \<and> cv_height cv' = 704"
proof -
  let ?c = "\<lparr>boundingClientRect =
          \<lparr>rect_left = 0, rect_top = 64, rect_width = 1024, rect_height = 704\<rparr>,
          clientWidth = 1024, clientHeight = 704\<rparr>"
  have al: "alive demo_three"
    unfolding demo_three_session by (rule alive_session)
  then obtain rd where rd: "renderer demo_three = Some rd"
    by (auto simp: alive_def)
  have f: "containerRef (relayout ?c demo_three) = Some ?c"
    "renderer (relayout ?c demo_three) = Some rd"
    "camera (relayout ?c demo_three) = camera demo_three"
    "overlay (relayout ?c demo_three) = overlay demo_three"
    using rd by (simp_all add: relayout_def demo_three_fields)
  show ?thesis
    using resizeAll_synchronises [OF f(1,2) f(3) [unfolded demo_three_fields(2)]
        f(4) [unfolded demo_three_fields(4)] refl refl]
    by simp
qed

text \<open>
  C5. With points stored, the mesh that \<open>createShape\<close> adds to the scene is the filled
  polygon built over the shape whose vertices are the stored points, all of them and
  in the order they were stored, each by its world coordinates \<open>(wx, wy)\<close>; with no
  point stored \<open>createShape\<close> throws and adds nothing; and a pointer-down either
  leaves the scene as it is or adds that mesh, over the points stored before the
  click.
\<close>

theorem createShape_mesh_from_points:
  "(points s \<noteq> [] \<longrightarrow>
      (\<exists>poly vs. scene (state_of (createShape s)) = scene s @ [poly] \<and>
         geometry poly = ShapeGeometry (Shape vs) \<and>
         material poly = ColorMaterial 0xff0000 DoubleSide 0.5 True \<and>
         vs = map (\<lambda>p. Vector2 (wx p) (wy p)) (points s) \<and>
         length vs = length (points s) \<and>
         (\<forall>i < length (points s). vs ! i = Vector2 (wx (points s ! i)) (wy (points s ! i))))) \<and>
   (points s = [] \<longrightarrow> createShape s = Inl (TypeError, s)) \<and>
   (scene (state_of (onPointerDown L ev s)) = scene s \<or>
    (\<exists>poly. scene (state_of (onPointerDown L ev s)) = scene s @ [poly] \<and>
       geometry poly = ShapeGeometry (Shape (map (\<lambda>p. Vector2 (wx p) (wy p)) (points s))) \<and>
       material poly = ColorMaterial 0xff0000 DoubleSide 0.5 True \<and>
       3 \<le> length (points s)))"
proof -
  have "scene (state_of (onPointerDown L ev s)) = scene s \<or>
    (scene (state_of (onPointerDown L ev s)) = scene s @
       [new_Mesh (ShapeGeometry (Shape (map (\<lambda>p. Vector2 (wx p) (wy p)) (points s))))
                 (ColorMaterial 0xff0000 DoubleSide 0.5 True)] \<and>
     3 \<le> length (points s))"
    by (simp add: onPointerDown_def Let_def state_of_simps createShape_frame drawOverlay_frame
        split: option.splits list.splits)
  then show ?thesis
    by (auto simp add: createShape_frame createShape_empty new_Mesh_def)
qed

theorem createShape_mesh_from_points_witness:
  "(\<exists>poly. scene (state_of (createShape demo_three)) = scene demo_three @ [poly] \<and>
      geometry poly
        = ShapeGeometry (Shape [Vector2 (- 100) 100, Vector2 100 100, Vector2 100 (- 100)])) \<and>
   createShape demo_loaded = Inl (TypeError, demo_loaded) \<and>
   (\<exists>poly. scene (state_of (onPointerDown flat_lib \<lparr>clientX = 310, clientY = 264\<rparr> demo_three))
              = scene demo_three @ [poly] \<and>
      geometry poly
        = ShapeGeometry (Shape [Vector2 (- 100) 100, Vector2 100 100, Vector2 100 (- 100)]))"
proof -
  have e: "points demo_loaded = []"
    by (simp add: demo_loaded_eq mounted_eq initial_def)
  show ?thesis
    using createShape_mesh_from_points [of demo_three flat_lib "\<lparr>clientX = 310, clientY = 264\<rparr>"]
      createShape_mesh_from_points [of demo_loaded flat_lib "\<lparr>clientX = 310, clientY = 264\<rparr>"]
      demo_close_scene e
    by (auto simp: demo_three_fields)
qed

text \<open>
  C6. In a mounted component a file is chosen: the blob URL made for it is new, it is
  live while the load is in flight, and when the load succeeds the callback runs: it
  first adds the textured plane to the scene and then revokes the URL, in that order.
  Unmounting, at any moment of any session, removes the resize listener and cancels
  the frame request whose handle \<open>animationId\<close> holds, which is the only one pending:
  no frame request and no listener is left.
\<close>

theorem resources_released:
  assumes "s = session L c evs"
    and "s1 = fire L (EvFileChange (Some f)) s"
    and "url = blob_last s + 1"
    and "Some url \<notin> set (map load_end evs')"
    and "s2 = fold (fire L) evs' s1"
    and "s3 = fire L (EvLoad url tex) s2"
    and "plane = new_Mesh (PlaneGeometry (real (image_width tex)) (real (image_height tex)))
                          (MapMaterial tex)"
    and "u = session L c' evs''"
  shows "url \<notin> blob_live s \<and> effects s1 = effects s @ [CreateObjectURL url] \<and>
     url \<in> blob_live s1 \<and> url \<in> blob_live s2 \<and> url \<notin> blob_live s3 \<and>
     s3 = onLoad url tex (s2\<lparr>loads := removeAll url (loads s2)\<rparr>) \<and>
     effects s3 = effects s2 @ [SceneAdd plane, RevokeObjectURL url] \<and>
     planeMesh s3 = Some plane \<and> scene s3 = scene s2 @ [plane] \<and>
     effects (onUnmounted u)
       = effects u @ [RemoveResizeListener, CancelAnimationFrame (animationId u)] \<and>
     resize_listening u \<and>
     (\<exists>h. animationId u = Some h \<and> raf_pending u = {h}) \<and>
     raf_pending (onUnmounted u) = {} \<and> \<not> resize_listening (onUnmounted u)"
proof -
  have fresh: "url \<notin> blob_live s"
    using urls_ok_session [of L c evs] assms(1,3) by (auto simp: urls_ok_def)
  have in1: "url \<in> set (loads s1)" "url \<in> blob_live s1"
    "effects s1 = effects s @ [CreateObjectURL url]"
    using assms(2,3) by (simp_all add: onFileChange_Some)
  have in2: "url \<in> set (loads s2) \<and> url \<in> blob_live s2"
    unfolding assms(5) using in1(1,2) assms(4) by (rule load_in_flight_fold)
  have s3: "s3 = onLoad url tex (s2\<lparr>loads := removeAll url (loads s2)\<rparr>)"
    using in2 assms(6) by simp
  have after: "effects s3 = effects s2 @ [SceneAdd plane, RevokeObjectURL url]"
    "planeMesh s3 = Some plane" "scene s3 = scene s2 @ [plane]" "url \<notin> blob_live s3"
    unfolding s3 assms(7) by (simp_all add: onLoad_eq)
  have "alive u"
    unfolding assms(8) by (rule alive_session)
  from onUnmounted_alive [OF this] have un:
    "raf_pending (onUnmounted u) = {}" "\<not> resize_listening (onUnmounted u)"
    "\<exists>h. animationId u = Some h \<and> raf_pending u = {h}"
    by auto
  have listening: "resize_listening u"
    using \<open>alive u\<close> by (simp add: alive_def)
  have log: "effects (onUnmounted u)
       = effects u @ [RemoveResizeListener, CancelAnimationFrame (animationId u)]"
    by (simp add: onUnmounted_def removeResizeListener_def cancelAnimationFrame_def Let_def
        split: option.splits)
  from fresh in1 in2 s3 after un listening log show ?thesis by blast
qed

theorem resources_released_witness:
  "1 \<notin> blob_live (mounted flat_lib demo_container) \<and>
   1 \<in> blob_live (fire flat_lib (EvFileChange (Some (File ''plan.png''))) (mounted flat_lib demo_container)) \<and>
   1 \<notin> blob_live demo_loaded \<and>
   effects demo_loaded
     = effects (fire flat_lib (EvFileChange (Some (File ''plan.png''))) (mounted flat_lib demo_container))
       @ [SceneAdd (new_Mesh (PlaneGeometry 400 300) (MapMaterial (Texture 400 300))),
          RevokeObjectURL 1] \<and>
   effects (onUnmounted demo_three)
     = effects demo_three @ [RemoveResizeListener, CancelAnimationFrame (animationId demo_three)] \<and>
   raf_pending (onUnmounted demo_three) = {} \<and> \<not> resize_listening (onUnmounted demo_three)"
proof -
  have b: "1 = blob_last (session flat_lib demo_container []) + 1"
    by (simp add: session_Nil mounted_eq initial_def)
  have e: "Some 1 \<notin> set (map load_end [])"
    by simp
  have d: "demo_loaded = fire flat_lib (EvLoad 1 (Texture 400 300))
      (fold (fire flat_lib) []
        (fire flat_lib (EvFileChange (Some (File ''plan.png''))) (session flat_lib demo_container [])))"
    by (simp add: demo_loaded_def session_def)
  have i: "real (image_width (Texture 400 300)) = 400" "real (image_height (Texture 400 300)) = 300"
    by simp_all
  show ?thesis
    using resources_released [OF refl refl b e refl d refl demo_three_session]
    unfolding session_Nil fold_simps i by blast
qed

text \<open>
  C7. A redraw of the overlay first clears the whole canvas, then, when more than one
  point is stored, strokes one line through all stored points in order, by their
  display coordinates, and then fills a circle of radius 5 at each stored point: the
  calls made on the context, and the marks they leave on any canvas.
\<close>

theorem drawOverlay_redraw:
  assumes "overlayCtx s = Some ctx" and "overlay s = Some cv"
  shows "\<exists>calls. drawOverlay s = s\<lparr>overlayCtx := Some (ctx @ calls)\<rparr> \<and>
     calls = [ClearRect 0 0 (real (cv_width cv)) (real (cv_height cv)),
              StrokeStyle ''lime'', LineWidth 2]
       @ (if 1 < length (points s)
          then [BeginPath, MoveTo (dx (points s ! 0)) (dy (points s ! 0))]
               @ map (\<lambda>q. LineTo (dx q) (dy q)) (drop 1 (points s)) @ [Stroke]
          else [])
       @ [FillStyle ''cyan'']
       @ concat (map (\<lambda>q. [BeginPath, Arc (dx q) (dy q) 5 0 (pi * 2), Fill]) (points s)) \<and>
     marks (paint (ctx @ calls) p) = marks (paint ctx p)
       @ [Cleared 0 0 (real (cv_width cv)) (real (cv_height cv))]
       @ (if 1 < length (points s)
          then [Stroked ''lime'' 2 (polyline (map (\<lambda>q. (dx q, dy q)) (points s)))] else [])
       @ map (\<lambda>q. Filled ''cyan'' [SegArc (dx q) (dy q) 5 0 (pi * 2)]) (points s)"
proof (cases "1 < length (points s)")
  case True
  then have ne: "points s \<noteq> []" by auto
  show ?thesis
    unfolding drawOverlay_calls [OF assms]
    apply (rule exI, rule conjI, rule refl)
    using True
    apply (simp add: paint_append paint_Cons paint_Nil paint_lines
        marks_paint_discs polyline_points [OF ne])
    done
next
  case False
  show ?thesis
    unfolding drawOverlay_calls [OF assms]
    apply (rule exI, rule conjI, rule refl)
    using False
    apply (simp add: paint_append paint_Cons paint_Nil marks_paint_discs)
    done
qed

theorem drawOverlay_redraw_witness:
  "\<exists>ctx calls. overlayCtx demo_three = Some ctx \<and>
     drawOverlay demo_three = demo_three\<lparr>overlayCtx := Some (ctx @ calls)\<rparr> \<and>
     calls = [ClearRect 0 0 800 600, StrokeStyle ''lime'', LineWidth 2,
              BeginPath, MoveTo 300 200, LineTo 500 200, LineTo 500 400, Stroke,
              FillStyle ''cyan'',
              BeginPath, Arc 300 200 5 0 (pi * 2), Fill,
              BeginPath, Arc 500 200 5 0 (pi * 2), Fill,
              BeginPath, Arc 500 400 5 0 (pi * 2), Fill] \<and>
     marks (paint (ctx @ calls) blank_painter) = marks (paint ctx blank_painter)
       @ [Cleared 0 0 800 600,
          Stroked ''lime'' 2 [SegMove 300 200, SegLine 500 200, SegLine 500 400],
          Filled ''cyan'' [SegArc 300 200 5 0 (pi * 2)],
          Filled ''cyan'' [SegArc 500 200 5 0 (pi * 2)],
          Filled ''cyan'' [SegArc 500 400 5 0 (pi * 2)]]"
proof -
  obtain ctx where ctx: "overlayCtx demo_three = Some ctx"
    using demo_three_ctx by blast
  show ?thesis
    using drawOverlay_redraw [OF ctx demo_three_fields(4), of blank_painter] ctx
    by (auto simp: demo_three_fields)
qed

text \<open>
  C8. A pointer-down whose ray does not meet the plane mesh returns with the state as
  it was but for the pointer: no point is appended, no mesh is added, and no call is
  made on the overlay's context.
\<close>

theorem onPointerDown_miss_unchanged:
  assumes "containerRef s = Some c"
    and "rect_width (boundingClientRect c) \<noteq> 0" and "rect_height (boundingClientRect c) \<noteq> 0"
    and "camera s = Some cam" and "planeMesh s = Some m"
    and "x = clientX ev - rect_left (boundingClientRect c)"
    and "y = clientY ev - rect_top (boundingClientRect c)"
    and "raycast L (Vector2 (x / rect_width (boundingClientRect c) * 2 - 1)
                            (- (y / rect_height (boundingClientRect c)) * 2 + 1)) cam m = []"
  shows "\<exists>s'. onPointerDown L ev s = Inr s' \<and>
           s' = s\<lparr>pointer := Vector2 (x / rect_width (boundingClientRect c) * 2 - 1)
                                      (- (y / rect_height (boundingClientRect c)) * 2 + 1)\<rparr> \<and>
           points s' = points s \<and> scene s' = scene s \<and> overlayCtx s' = overlayCtx s"
  using assms by (simp add: onPointerDown_def Let_def)

theorem onPointerDown_miss_unchanged_witness:
  "\<exists>s'. onPointerDown flat_lib \<lparr>clientX = 100, clientY = 100\<rparr> demo_three = Inr s' \<and>
        points s' = points demo_three \<and> scene s' = scene demo_three \<and>
        overlayCtx s' = overlayCtx demo_three"
proof -
  have r: "rect_width (boundingClientRect demo_container) \<noteq> 0"
    "rect_height (boundingClientRect demo_container) \<noteq> 0"
    by (simp_all add: demo_container_def)
  let ?cam = "\<lparr>cam_left = - 400, cam_right = 400, cam_top = 300, cam_bottom = - 300,
      cam_near = 0.1, cam_far = 1000, cam_position = Vector3 0 0 10\<rparr>"
  let ?m = "new_Mesh (PlaneGeometry 400 300) (MapMaterial (Texture 400 300))"
  have miss: "raycast flat_lib
      (Vector2 ((clientX \<lparr>clientX = 100, clientY = 100\<rparr>
                   - rect_left (boundingClientRect demo_container))
                 / rect_width (boundingClientRect demo_container) * 2 - 1)
               (- ((clientY \<lparr>clientX = 100, clientY = 100\<rparr>
                   - rect_top (boundingClientRect demo_container))
                 / rect_height (boundingClientRect demo_container)) * 2 + 1)) ?cam ?m
     = []"
    by (simp add: flat_lib_def flat_raycast_def demo_container_def new_Mesh_def)
  show ?thesis
    using onPointerDown_miss_unchanged
      [OF demo_three_fields(1) r demo_three_fields(2,3) refl refl miss]
    by blast
qed

text \<open>
  C9 fails on the code. As long as no load has completed, \<open>planeMesh\<close> is undefined,
  yet both pointer handlers pass it to the ray caster: every pointer move and every
  pointer-down of a mounted component then throws a \<open>TypeError\<close>.
\<close>

theorem handlers_throw_before_load:
  assumes "\<forall>e \<in> set evs. \<not> is_load e"
  shows "planeMesh (session L c evs) = None \<and>
         (\<exists>s'. onPointerMove L ev (session L c evs) = Inl (TypeError, s')) \<and>
         (\<exists>s'. onPointerDown L ev (session L c evs) = Inl (TypeError, s'))"
  using no_plane_session [OF assms, of L c]
    throws_without_plane [OF alive_session, of L c evs L ev]
  by simp

theorem handlers_throw_before_load_witness:
  "planeMesh (mounted flat_lib demo_container) = None \<and>
   (\<exists>s'. onPointerMove flat_lib \<lparr>clientX = 400, clientY = 364\<rparr> (mounted flat_lib demo_container)
          = Inl (TypeError, s')) \<and>
   (\<exists>s'. onPointerDown flat_lib \<lparr>clientX = 400, clientY = 364\<rparr>
            (session flat_lib demo_container [EvFileChange (Some (File ''plan.png''))])
          = Inl (TypeError, s'))"
proof -
  have a: "\<forall>e \<in> set []. \<not> is_load e"
    by simp
  have b: "\<forall>e \<in> set [EvFileChange (Some (File ''plan.png''))]. \<not> is_load e"
    by simp
  show ?thesis
    using handlers_throw_before_load [OF a, of flat_lib demo_container "\<lparr>clientX = 400, clientY = 364\<rparr>"]
      handlers_throw_before_load [OF b, of flat_lib demo_container "\<lparr>clientX = 400, clientY = 364\<rparr>"]
    by (simp add: session_Nil)
qed

text \<open>
  C10. \<open>createShape\<close> returns exactly when points are stored and the overlay's context
  and canvas are there. When it returns, the stored points are empty and the last
  call on the overlay's context cleared the whole canvas, while the image's size, the
  plane mesh, the overlay canvas and every mesh that was in the scene are as before.
\<close>

theorem createShape_resets:
  "(points s \<noteq> [] \<and> overlayCtx s = Some ctx \<and> overlay s = Some cv \<longrightarrow>
      (\<exists>s' ctx'. createShape s = Inr s' \<and>
         points s' = [] \<and>
         overlayCtx s' = Some ctx' \<and>
         ctx' = ctx @ [ClearRect 0 0 (real (cv_width cv)) (real (cv_height cv))] \<and>
         last (marks (paint ctx' p)) = Cleared 0 0 (real (cv_width cv)) (real (cv_height cv)) \<and>
         imgW s' = imgW s \<and> imgH s' = imgH s \<and> planeMesh s' = planeMesh s \<and>
         overlay s' = overlay s \<and>
         take (length (scene s)) (scene s') = scene s)) \<and>
   (\<forall>s'. createShape s = Inr s' \<longrightarrow>
      points s \<noteq> [] \<and> overlayCtx s \<noteq> None \<and> overlay s \<noteq> None)"
proof -
  have "\<forall>s'. createShape s = Inr s' \<longrightarrow>
      points s \<noteq> [] \<and> overlayCtx s \<noteq> None \<and> overlay s \<noteq> None"
    by (cases "points s = []")
      (auto simp: createShape_def new_Shape_simps scene_add_def Let_def split: option.splits)
  then show ?thesis
    by (simp add: createShape_returns paint_append paint_Cons paint_Nil)
qed

theorem createShape_resets_witness:
  "(\<exists>s'. createShape demo_three = Inr s' \<and> points s' = [] \<and>
      imgW s' = 400 \<and> imgH s' = 300 \<and>
      take 1 (scene s') = [new_Mesh (PlaneGeometry 400 300) (MapMaterial (Texture 400 300))]) \<and>
   (\<forall>s'. createShape demo_loaded \<noteq> Inr s')"
proof -
  obtain ctx where ctx: "overlayCtx demo_three = Some ctx"
    using demo_three_ctx by blast
  have i: "imgW demo_three = 400" "imgH demo_three = 300"
    by (simp_all add: demo_three_def demo_loaded_fields onPointerDown_frame)
  have e: "points demo_loaded = []"
    by (simp add: demo_loaded_eq mounted_eq initial_def)
  have a: "\<exists>s'. createShape demo_three = Inr s' \<and> points s' = [] \<and>
      imgW s' = 400 \<and> imgH s' = 300 \<and>
      take 1 (scene s') = [new_Mesh (PlaneGeometry 400 300) (MapMaterial (Texture 400 300))]"
    using createShape_resets [of demo_three ctx "\<lparr>cv_width = 800, cv_height = 600\<rparr>"] ctx
    by (auto simp: demo_three_fields i)
  have b: "\<forall>s'. createShape demo_loaded \<noteq> Inr s'"
    using createShape_resets [of demo_loaded] e by blast
  from a b show ?thesis by blast
qed

end
